theory Spec2Isabelle
  imports Main
begin

section \<open>Exceptions, console events and the device\<close>

text \<open>
  The dispatcher drives a board over a serial console.  Everything the code does to the
  outside world (bytes sent, patterns awaited, shell commands run, host-side helpers,
  sleeps, log records) is appended to a trace kept in the state of the Target object.
  What the outside world answers is not decided by the program; it is given by an
  environment whose answers may depend on the whole trace so far.
\<close>

datatype exn =
    OperationFailed
  | TIMEOUT
  | EOF
  | NetworkError
  | CriticalError string
  | RuntimeError string
  | TypeError
  | AssertionError string
  | KeyError string
  | OtherError string

datatype pat = Re string | PEOF | PTIMEOUT

datatype event =
    SendLine string
  | SendControl string
  | Send string
  | EmptyBuffer
  | Expect "pat list" int
  | Command string int
  | GetTargetIp
  | HostCommand string
  | Host string "string list"
  | Sleep int
  | Log string string
  | Yield string

text \<open>What the console shows while the program awaits a list of patterns.\<close>

datatype outcome = Matched nat "string list" | TimedOut | Closed

text \<open>What the shell on the board answers to a command line.\<close>

datatype cmd_outcome = ExitCode int | Pattern nat "string list" | NoResponse | StreamClosed

datatype run_result = Rc int | Match nat "string list"

record env =
  console :: "event list \<Rightarrow> outcome"
  shell :: "event list \<Rightarrow> cmd_outcome"
  target_ip :: "event list \<Rightarrow> exn + string option"
  host_cmd :: "event list \<Rightarrow> exn option"
  host_path :: "event list \<Rightarrow> exn + string"
  host_exists :: "event list \<Rightarrow> bool"
  host_files :: "event list \<Rightarrow> exn + string list"

datatype boot_cmds_cfg = BootCmdsKey string | BootCmdsList "string list"

record config =
  master_str :: string
  boot_retries :: int
  soft_boot_cmd :: string
  hard_reset_command :: string
  image_boot_msg :: string
  lava_proxy :: string
  lava_image_tmpdir :: string
  lava_image_url :: string
  scratch_dir :: string
  boot_device :: int
  testboot_offset :: int
  read_boot_cmds_from_image :: bool
  boot_part :: int
  root_part :: int
  sdcard_part_android_org :: int
  data_part_android_org :: int
  boot_files :: "string list"
  boot_cmds :: boot_cmds_cfg
  cp :: "string \<rightharpoonup> string"

record target =
  master_ip :: "string option"
  device_version :: "string option"
  boot_cmds_dynamic :: "string list option"
  deployment_data :: "string \<rightharpoonup> string"
  trace :: "event list"

type_synonym 'a action = "target \<Rightarrow> (exn + 'a) \<times> target"

subsection \<open>Control flow: sequencing, raise, try/except, try/finally\<close>

definition ret :: "'a \<Rightarrow> 'a action" where
  "ret x s = (Inr x, s)"

definition raise :: "exn \<Rightarrow> 'a action" where
  "raise e s = (Inl e, s)"

definition bind :: "'a action \<Rightarrow> ('a \<Rightarrow> 'b action) \<Rightarrow> 'b action" where
  "bind m f s = (case m s of (Inl e, s') \<Rightarrow> (Inl e, s') | (Inr x, s') \<Rightarrow> f x s')"

fun seq :: "unit action list \<Rightarrow> unit action" where
  "seq [] = ret ()"
| "seq (m # ms) = bind m (\<lambda>_. seq ms)"

text \<open>\<open>try: m except <classes>: h\<close>; \<open>catches\<close> says which exceptions the clause names.\<close>

definition try_except :: "'a action \<Rightarrow> (exn \<Rightarrow> bool) \<Rightarrow> (exn \<Rightarrow> 'a action) \<Rightarrow> 'a action" where
  "try_except m catches h s =
     (case m s of
        (Inl e, s') \<Rightarrow> if catches e then h e s' else (Inl e, s')
      | (Inr x, s') \<Rightarrow> (Inr x, s'))"

text \<open>
  \<open>try: m finally: fin\<close>: the clean-up always runs; an exception it raises replaces
  the outcome of the body, otherwise the outcome of the body stands.
\<close>

definition try_finally :: "'a action \<Rightarrow> unit action \<Rightarrow> 'a action" where
  "try_finally m fin s =
     (case m s of
        (r, s') \<Rightarrow> (case fin s' of (Inl e, s'') \<Rightarrow> (Inl e, s'') | (Inr _, s'') \<Rightarrow> (r, s'')))"

definition emit :: "event \<Rightarrow> target \<Rightarrow> target" where
  "emit ev s = s\<lparr>trace := trace s @ [ev]\<rparr>"

definition do_event :: "event \<Rightarrow> unit action" where
  "do_event ev s = (Inr (), emit ev s)"

subsection \<open>The serial connection (pexpect), logging, time\<close>

definition sendline :: "string \<Rightarrow> unit action" where
  "sendline x = do_event (SendLine x)"

definition sendcontrol :: "string \<Rightarrow> unit action" where
  "sendcontrol c = do_event (SendControl c)"

definition send :: "string \<Rightarrow> unit action" where
  "send x = do_event (Send x)"

definition empty_buffer :: "unit action" where
  "empty_buffer = do_event EmptyBuffer"

definition logging :: "string \<Rightarrow> string \<Rightarrow> unit action" where
  "logging level msg = do_event (Log level msg)"

definition sleep :: "int \<Rightarrow> unit action" where
  "sleep n = do_event (Sleep n)"

fun index_of :: "'a \<Rightarrow> 'a list \<Rightarrow> nat option" where
  "index_of x [] = None"
| "index_of x (y # ys) =
     (if x = y then Some 0 else (case index_of x ys of None \<Rightarrow> None | Some i \<Rightarrow> Some (Suc i)))"

text \<open>
  \<open>proc.expect(patterns, timeout)\<close>: the index of the pattern that matched, with the
  groups of the match.  A timeout or a closed stream gives the index of the pseudo-pattern
  when the caller listed it, and raises otherwise.
\<close>

definition expect :: "env \<Rightarrow> pat list \<Rightarrow> int \<Rightarrow> (nat \<times> string list) action" where
  "expect en pats timeout s =
     (let s1 = emit (Expect pats timeout) s in
      case console en (trace s1) of
        Matched i gs \<Rightarrow> (Inr (i, gs), s1)
      | TimedOut \<Rightarrow>
          (case index_of PTIMEOUT pats of
             Some i \<Rightarrow> (Inr (i, []), s1)
           | None \<Rightarrow> (Inl TIMEOUT, s1))
      | Closed \<Rightarrow>
          (case index_of PEOF pats of
             Some i \<Rightarrow> (Inr (i, []), s1)
           | None \<Rightarrow> (Inl EOF, s1)))"

text \<open>\<open>context.run_command(cmd)\<close>: a command on the host; its exit status is not inspected.\<close>

definition run_command :: "string \<Rightarrow> unit action" where
  "run_command cmd = do_event (HostCommand cmd)"

subsection \<open>The command runner\<close>

text \<open>
  Modelled from the spec: \<open>CommandRunner.run\<close> (lava_dispatcher.client.base) is not among
  the sources.  Section 4.2: the runner sends the command line, then awaits either the
  role's success prompt, which carries the exit code, or caller-supplied patterns.  On the
  success prompt a non-zero code is a failure (\<open>OperationFailed\<close>) unless \<open>failok\<close>;
  on a caller-supplied pattern no exit code is available and success is assumed; a timeout
  or a closed stream is always a failure, unless the caller listed the pseudo-pattern
  among its own.
\<close>

definition run :: "env \<Rightarrow> string \<Rightarrow> pat list \<Rightarrow> int \<Rightarrow> bool \<Rightarrow> run_result action" where
  "run en cmd response timeout failok s =
     (let s1 = emit (Command cmd timeout) s in
      case shell en (trace s1) of
        ExitCode rc \<Rightarrow>
          if rc \<noteq> 0 \<and> \<not> failok then (Inl OperationFailed, s1) else (Inr (Rc rc), s1)
      | Pattern i gs \<Rightarrow> (Inr (Match i gs), s1)
      | NoResponse \<Rightarrow>
          (case index_of PTIMEOUT response of
             Some i \<Rightarrow> (Inr (Match i []), s1)
           | None \<Rightarrow> (Inl TIMEOUT, s1))
      | StreamClosed \<Rightarrow>
          (case index_of PEOF response of
             Some i \<Rightarrow> (Inr (Match i []), s1)
           | None \<Rightarrow> (Inl EOF, s1)))"

subsection \<open>Strings\<close>

fun str_nat :: "nat \<Rightarrow> string" where
  "str_nat n =
     (if n < 10 then [''0123456789'' ! n]
      else str_nat (n div 10) @ [''0123456789'' ! (n mod 10)])"

text \<open>Python's \<open>str\<close> of an integer (\<open>%d\<close> and \<open>%s\<close> format it the same way).\<close>

definition str_int :: "int \<Rightarrow> string" where
  "str_int i = (if i < 0 then ''-'' @ str_nat (nat (- i)) else str_nat (nat i))"

definition squote :: string where
  "squote = [CHR 0x27]"

definition endswith :: "string \<Rightarrow> string \<Rightarrow> bool" where
  "endswith s suf = (length suf \<le> length s \<and> drop (length s - length suf) s = suf)"

definition startswith :: "string \<Rightarrow> string \<Rightarrow> bool" where
  "startswith s pre = (take (length pre) s = pre)"

text \<open>\<open>s.replace(old, new)\<close>: every non-overlapping occurrence, from the left.\<close>

function replace :: "string \<Rightarrow> string \<Rightarrow> string \<Rightarrow> string" where
  "replace s old new =
     (if old = [] then new @ concat (map (\<lambda>c. c # new) s)
      else if s = [] then []
      else if startswith s old then new @ replace (drop (length old) s) old new
      else hd s # replace (tl s) old new)"
  by pat_completeness auto
termination
  by (relation "measure (\<lambda>(s, old, new). length s)") auto

declare replace.simps [simp del]

text \<open>\<open>s.strip(chars)\<close>, \<open>sep.join(xs)\<close>, \<open>s.split(sep)\<close> for a one-character separator.\<close>

definition strip :: "string \<Rightarrow> string \<Rightarrow> string" where
  "strip chars s =
     rev (dropWhile (\<lambda>c. c \<in> set chars) (rev (dropWhile (\<lambda>c. c \<in> set chars) s)))"

definition rstrip :: "string \<Rightarrow> string \<Rightarrow> string" where
  "rstrip chars s = rev (dropWhile (\<lambda>c. c \<in> set chars) (rev s))"

fun join :: "string \<Rightarrow> string list \<Rightarrow> string" where
  "join sep [] = []"
| "join sep [x] = x"
| "join sep (x # y # ys) = x @ sep @ join sep (y # ys)"

fun split :: "char \<Rightarrow> string \<Rightarrow> string list" where
  "split sep [] = [[]]"
| "split sep (c # cs) =
     (if c = sep then [] # split sep cs
      else (case split sep cs of
              w # ws \<Rightarrow> (c # w) # ws
            | [] \<Rightarrow> [[c]]))"

text \<open>\<open>os.path.join\<close> of two components, \<open>os.path.split\<close> and \<open>os.path.basename\<close> (posixpath).\<close>

definition path_join :: "string \<Rightarrow> string \<Rightarrow> string" where
  "path_join a b =
     (if startswith b ''/'' then b
      else if a = [] \<or> endswith a ''/'' then a @ b
      else a @ ''/'' @ b)"

definition basename :: "string \<Rightarrow> string" where
  "basename p = rev (takeWhile (\<lambda>c. c \<noteq> CHR ''/'') (rev p))"

definition path_split :: "string \<Rightarrow> string \<times> string" where
  "path_split p =
     (let tail = basename p;
          head = take (length p - length tail) p
      in (if head \<noteq> [] \<and> \<not> list_all (\<lambda>c. c = CHR ''/'') head then rstrip ''/'' head
          else head,
          tail))"

definition str_opt :: "string option \<Rightarrow> string" where
  "str_opt v = (case v of None \<Rightarrow> ''None'' | Some x \<Rightarrow> x)"

subsection \<open>Helpers on the host\<close>

text \<open>
  The host-side helpers of the dispatcher (\<open>download_with_retry\<close>, \<open>mk_targz\<close>, \<open>rmtree\<close>,
  \<open>extract_targz\<close>, \<open>mkdtemp\<close>, \<open>image_partition_mounted\<close>) and of the standard library
  (\<open>os.mkdir\<close>, \<open>os.path.exists\<close>, \<open>open().read()\<close>, \<open>time.time\<close>) are not among the
  sources.  A call is recorded with its name and arguments; what it returns or raises is
  the environment's answer.
\<close>

definition host_unit :: "env \<Rightarrow> string \<Rightarrow> string list \<Rightarrow> unit action" where
  "host_unit en name args s =
     (let s1 = emit (Host name args) s in
      case host_cmd en (trace s1) of None \<Rightarrow> (Inr (), s1) | Some e \<Rightarrow> (Inl e, s1))"

definition host_str :: "env \<Rightarrow> string \<Rightarrow> string list \<Rightarrow> string action" where
  "host_str en name args s =
     (let s1 = emit (Host name args) s in
      case host_path en (trace s1) of Inr x \<Rightarrow> (Inr x, s1) | Inl e \<Rightarrow> (Inl e, s1))"

definition host_bool :: "env \<Rightarrow> string \<Rightarrow> string list \<Rightarrow> bool action" where
  "host_bool en name args s =
     (let s1 = emit (Host name args) s in (Inr (host_exists en (trace s1)), s1))"

definition host_list :: "env \<Rightarrow> string \<Rightarrow> string list \<Rightarrow> string list action" where
  "host_list en name args s =
     (let s1 = emit (Host name args) s in
      case host_files en (trace s1) of Inr x \<Rightarrow> (Inr x, s1) | Inl e \<Rightarrow> (Inl e, s1))"

section \<open>MasterImageTarget.target_extract\<close>

definition extract_cmd :: "string \<Rightarrow> string \<Rightarrow> string \<Rightarrow> string" where
  "extract_cmd tar_url dest decompression_char =
     ''wget --no-check-certificate --no-proxy '' @
     ''--connect-timeout=30 -S --progress=dot -e dotbytes=2M '' @
     ''-O- '' @ tar_url @ '' | '' @
     ''tar --warning=no-timestamp --numeric-owner -C '' @ dest @
     '' -x'' @ decompression_char @ ''f -''"

text \<open>The \<open>while num_retry > 0\<close> loop of \<open>target_extract\<close>.\<close>

function target_extract_loop ::
  "env \<Rightarrow> string \<Rightarrow> string \<Rightarrow> string \<Rightarrow> int \<Rightarrow> int \<Rightarrow> unit action" where
  "target_extract_loop en tar_url dest decompression_char timeout num_retry s =
     (if num_retry > 0 then
        (case run en (extract_cmd tar_url dest decompression_char) [] timeout False s of
           (Inr _, s1) \<Rightarrow> (Inr (), s1)
         | (Inl e, s1) \<Rightarrow>
             if e = OperationFailed \<or> e = TIMEOUT then
               (case logging ''warning'' ''transfering %s failed. %d retry left.'' s1 of
                  (_, s2) \<Rightarrow>
                    (case (if num_retry > 1 then
                             seq [sendcontrol ''c'',
                                  sendline (''echo '' @ squote @ ''retry left '' @ str_int (num_retry - 1) @
                                    '' time(s)'' @ squote),
                                  logging ''info'' ''Wait %d second before retry'',
                                  sleep 60] s2
                           else (Inr (), s2)) of
                       (_, s3) \<Rightarrow>
                         target_extract_loop en tar_url dest decompression_char timeout
                           (num_retry - 1) s3))
             else (Inl e, s1))
      else (Inl (RuntimeError (''extracting '' @ tar_url @ '' on target failed'')), s))"
  by pat_completeness auto
termination
  by (relation "measure (\<lambda>(en, tar_url, dest, dc, timeout, num_retry, s). nat num_retry)") auto

declare target_extract_loop.simps [simp del]

definition target_extract ::
  "env \<Rightarrow> string \<Rightarrow> string \<Rightarrow> int \<Rightarrow> int \<Rightarrow> unit action" where
  "target_extract en tar_url dest timeout num_retry s =
     (if endswith tar_url ''.gz'' \<or> endswith tar_url ''.tgz'' then
        target_extract_loop en tar_url dest ''z'' timeout num_retry s
      else if endswith tar_url ''.bz2'' then
        target_extract_loop en tar_url dest ''j'' timeout num_retry s
      else (Inl (RuntimeError (''bad file extension: '' @ tar_url)), s))"

section \<open>MasterCommandRunner\<close>

definition dquote :: string where
  "dquote = [CHR 0x22]"

definition backslash :: string where
  "backslash = [CHR 0x5C]"

definition discard :: "'a action \<Rightarrow> unit action" where
  "discard m = bind m (\<lambda>_. ret ())"

definition is_file_exist :: "env \<Rightarrow> string \<Rightarrow> bool action" where
  "is_file_exist en path =
     bind (run en (''ls '' @ path @ '' > /dev/null'') [] (- 1) True)
       (\<lambda>rc. if rc = Rc 0 then ret True else ret False)"

text \<open>The label is a string or \<open>None\<close>; \<open>not label\<close> holds for \<open>None\<close> and for the empty string.\<close>

definition has_partition_with_label :: "env \<Rightarrow> string option \<Rightarrow> bool action" where
  "has_partition_with_label en label =
     (case label of
        None \<Rightarrow> ret False
      | Some l \<Rightarrow>
          if l = [] then ret False
          else is_file_exist en (''/dev/disk/by-label/'' @ l))"

definition device_version_cmd :: string where
  "device_version_cmd =
     ''echo '' @ dquote @ ''device_version='' @
     ''$(lava-master-image-info --master-image-hwpack '' @
     ''| sed '' @ squote @ ''s/[^0-9-]//g; s/^-'' @ backslash @ ''+//'' @ squote @ '')'' @
     ''/'' @
     ''$(lava-master-image-info --master-image-rootfs '' @
     ''| sed '' @ squote @ ''s/[^0-9-]//g; s/^-'' @ backslash @ ''+//'' @ squote @ '')'' @
     dquote"

definition device_version_pattern :: string where
  "device_version_pattern =
     ''device_version=('' @ backslash @ ''d+-'' @ backslash @ ''d+/'' @ backslash @ ''d+-'' @
     backslash @ ''d+)''"

definition get_device_version :: "env \<Rightarrow> string option action" where
  "get_device_version en =
     bind (run en device_version_cmd [Re device_version_pattern, PEOF, PTIMEOUT] 5 False)
       (\<lambda>r. case r of
              Match i gs \<Rightarrow>
                if i = 0 then
                  (case gs of
                     g # _ \<Rightarrow>
                       bind (logging ''debug'' ''Master image version (hwpack/rootfs) is %s'')
                         (\<lambda>_. ret (Some g))
                   | [] \<Rightarrow> raise (OtherError ''IndexError''))
                else bind (logging ''warning'' ''Could not determine image version!'')
                       (\<lambda>_. ret None)
            | Rc rc \<Rightarrow>
                bind (logging ''warning'' ''Could not determine image version!'')
                  (\<lambda>_. ret None))"

text \<open>
  \<open>NetworkCommandRunner.get_target_ip\<close> is not among the sources: the address it finds
  (or \<open>None\<close>), or the error it raises (a \<open>NetworkError\<close> when the network never comes
  up), is the environment's answer.
\<close>

definition get_target_ip :: "env \<Rightarrow> string option action" where
  "get_target_ip en s =
     (let s1 = emit GetTargetIp s in
      case target_ip en (trace s1) of
        Inl e \<Rightarrow> (Inl e, s1)
      | Inr ip \<Rightarrow> (Inr ip, s1))"

section \<open>Rebooting into the master image\<close>

definition MASTER_PS1 :: "config \<Rightarrow> string" where
  "MASTER_PS1 cfg = master_str cfg @ '' [rc=$(echo '' @ backslash @ ''$?)]# ''"

definition MASTER_PS1_PATTERN :: "config \<Rightarrow> string" where
  "MASTER_PS1_PATTERN cfg =
     master_str cfg @ '' '' @ backslash @ ''[rc=('' @ backslash @ ''d+)'' @ backslash @ '']# ''"

definition assign_master_ip :: "string option \<Rightarrow> unit action" where
  "assign_master_ip v s = (Inr (), s\<lparr>master_ip := v\<rparr>)"

definition assign_device_version :: "string option \<Rightarrow> unit action" where
  "assign_device_version v s = (Inr (), s\<lparr>device_version := v\<rparr>)"

text \<open>
  \<open>fmt % e\<close> with a single argument that is neither a tuple nor a mapping (here an
  exception object): Python raises \<open>TypeError\<close> (not all arguments converted) when the
  format has no conversion specifier.  Log records keep the format; the interpolated
  values are not part of the model.
\<close>

definition py_format :: "string \<Rightarrow> string action" where
  "py_format fmt = (if CHR ''%'' \<in> set fmt then ret fmt else raise TypeError)"

definition soft_reboot :: "env \<Rightarrow> config \<Rightarrow> unit action" where
  "soft_reboot en cfg =
     bind (logging ''info'' ''Perform soft reboot the system'') (\<lambda>_.
     bind (assign_master_ip None) (\<lambda>_.
     bind (sendcontrol ''c'') (\<lambda>_.
     bind (sendline (soft_boot_cmd cfg)) (\<lambda>_.
     bind (expect en [PTIMEOUT, Re ''Restarting system.'',
                      Re ''The system is going down for reboot NOW'',
                      Re ''Will now restart'', Re ''U-Boot''] 120) (\<lambda>(match_id, gs).
     if match_id = 0 then raise OperationFailed else ret ())))))"

definition hard_reboot :: "config \<Rightarrow> unit action" where
  "hard_reboot cfg =
     bind (logging ''info'' ''Perform hard reset on the system'') (\<lambda>_.
     bind (assign_master_ip None) (\<lambda>_.
     if hard_reset_command cfg \<noteq> [] then run_command (hard_reset_command cfg)
     else seq [send ''~$'', sendline ''hardreset'', empty_buffer]))"

text \<open>
  Modelled from the spec: \<open>Target._wait_for_prompt\<close> is not among the sources.  Section 4.4,
  step 2: after the boot banner, await the role's prompt pattern.
\<close>

definition wait_for_prompt :: "env \<Rightarrow> string \<Rightarrow> int \<Rightarrow> unit action" where
  "wait_for_prompt en prompt_pattern timeout =
     discard (expect en [Re prompt_pattern] timeout)"

definition wait_for_master_boot :: "env \<Rightarrow> config \<Rightarrow> unit action" where
  "wait_for_master_boot en cfg =
     bind (expect en [Re (image_boot_msg cfg)] 300) (\<lambda>_.
     wait_for_prompt en (master_str cfg) 300)"

definition reboot_failure :: "exn \<Rightarrow> bool" where
  "reboot_failure e = (e = OperationFailed \<or> e = TIMEOUT)"

text \<open>
  One iteration of the loop of \<open>boot_master_image\<close>.  The result says whether the board is
  in the master image; \<open>False\<close> stands for \<open>attempts += 1; continue\<close>.
\<close>

definition boot_attempt :: "env \<Rightarrow> config \<Rightarrow> bool action" where
  "boot_attempt en cfg =
     bind (logging ''info'' ''Booting the system master image. Attempt: %d'') (\<lambda>_.
     bind (try_except
             (bind (soft_reboot en cfg) (\<lambda>_.
              bind (wait_for_master_boot en cfg) (\<lambda>_. ret True)))
             reboot_failure
             (\<lambda>e. bind (logging ''info'' ''Soft reboot failed: %s'') (\<lambda>_.
                  try_except
                    (bind (hard_reboot cfg) (\<lambda>_.
                     bind (wait_for_master_boot en cfg) (\<lambda>_. ret True)))
                    reboot_failure
                    (\<lambda>e. bind (py_format ''Hard reboot into master image failed: %s'') (\<lambda>msg.
                         bind (logging ''warning'' msg) (\<lambda>_. ret False)))))) (\<lambda>rebooted.
     if \<not> rebooted then ret False else
     bind (try_except
             (bind (sendline (''export PS1='' @ dquote @ MASTER_PS1 cfg @ dquote)) (\<lambda>_.
              bind (expect en [Re (MASTER_PS1_PATTERN cfg)] 120) (\<lambda>_. ret True)))
             (\<lambda>e. e = TIMEOUT)
             (\<lambda>e. bind (py_format ''Failed to get command line prompt: '') (\<lambda>msg.
                  bind (logging ''warning'' msg) (\<lambda>_. ret False)))) (\<lambda>prompted.
     if \<not> prompted then ret False else
     bind (try_except
             (bind (get_target_ip en) (\<lambda>ip.
              bind (assign_master_ip ip) (\<lambda>_.
              bind (get_device_version en) (\<lambda>v.
              bind (assign_device_version v) (\<lambda>_. ret True)))))
             (\<lambda>e. e = NetworkError)
             (\<lambda>e. bind (py_format ''Failed to get network up: '') (\<lambda>msg.
                  bind (logging ''warning'' msg) (\<lambda>_. ret False)))) (\<lambda>networked.
     if \<not> networked then ret False else
     bind (if lava_proxy cfg \<noteq> [] then
             bind (logging ''info'' ''Setting up http proxy'') (\<lambda>_.
             discard (run en (''export http_proxy='' @ lava_proxy cfg) [] 30 False))
           else ret ()) (\<lambda>_.
     bind (logging ''info'' ''System is in master image now'') (\<lambda>_.
     ret True))))))"

text \<open>
  The loop \<open>while (attempts < boot_attempts) and (not in_master_image)\<close>; the result is
  \<open>in_master_image\<close> when the loop is left.
\<close>

function boot_master_image_loop :: "env \<Rightarrow> config \<Rightarrow> int \<Rightarrow> bool action" where
  "boot_master_image_loop en cfg attempts s =
     (if attempts < boot_retries cfg then
        (case boot_attempt en cfg s of
           (Inl e, s1) \<Rightarrow> (Inl e, s1)
         | (Inr in_master_image, s1) \<Rightarrow>
             if in_master_image then (Inr True, s1)
             else boot_master_image_loop en cfg (attempts + 1) s1)
      else (Inr False, s))"
  by pat_completeness auto
termination
  by (relation "measure (\<lambda>(en, cfg, attempts, s). nat (boot_retries cfg - attempts))") auto

declare boot_master_image_loop.simps [simp del]

definition boot_master_image :: "env \<Rightarrow> config \<Rightarrow> unit action" where
  "boot_master_image en cfg =
     bind (boot_master_image_loop en cfg 0) (\<lambda>in_master_image.
     if \<not> in_master_image then
       bind (logging ''critical'' ''Could not get master image booted properly'') (\<lambda>_.
       raise (CriticalError ''Could not get master image booted properly''))
     else ret ())"

text \<open>
  The context manager \<open>_as_master\<close>: the code before its \<open>yield\<close>, then the body of the
  \<open>with\<close> statement; nothing follows the \<open>yield\<close>.
\<close>

definition as_master :: "env \<Rightarrow> config \<Rightarrow> 'a action \<Rightarrow> 'a action" where
  "as_master en cfg body =
     bind (sendline []) (\<lambda>_.
     bind (expect en [Re (MASTER_PS1_PATTERN cfg), PTIMEOUT] 10) (\<lambda>(match_id, gs).
     bind (if match_id = 1 then boot_master_image en cfg else ret ()) (\<lambda>_.
     body)))"

section \<open>Deployment of the tarballs\<close>

text \<open>\<open>session.run(cmd)\<close> with the default arguments, the exit code ignored.\<close>

definition run_cmd :: "env \<Rightarrow> string \<Rightarrow> unit action" where
  "run_cmd en cmd = discard (run en cmd [] (- 1) False)"

definition format_testpartition :: "env \<Rightarrow> string \<Rightarrow> unit action" where
  "format_testpartition en fstype =
     seq [logging ''info'' ''Format testboot and testrootfs partitions'',
          discard (run en ''umount /dev/disk/by-label/testrootfs'' [] (- 1) True),
          discard (run en (''nice mkfs -t '' @ fstype @
                           '' -q /dev/disk/by-label/testrootfs -L testrootfs'') [] 1800 False),
          discard (run en ''umount /dev/disk/by-label/testboot'' [] (- 1) True),
          run_cmd en ''nice mkfs.vfat /dev/disk/by-label/testboot -n testboot'']"

definition deploy_linaro_rootfs :: "env \<Rightarrow> string \<Rightarrow> unit action" where
  "deploy_linaro_rootfs en rootfs =
     bind (seq [logging ''info'' ''Deploying linaro image'',
                run_cmd en ''udevadm trigger'',
                run_cmd en ''mkdir -p /mnt/root'',
                run_cmd en ''mount /dev/disk/by-label/testrootfs /mnt/root'',
                target_extract en rootfs ''/mnt/root'' 18000 5]) (\<lambda>_.
     bind (run en ''chroot /mnt/root which dpkg-divert'' [] (- 1) True) (\<lambda>rc.
     bind (if rc = Rc 0 then
             seq [run_cmd en ''chroot /mnt/root dpkg-divert --local /usr/sbin/flash-kernel'',
                  run_cmd en ''chroot /mnt/root ln -sf /bin/true /usr/sbin/flash-kernel'']
           else ret ()) (\<lambda>_.
     run_cmd en ''umount /mnt/root'')))"

definition deploy_linaro_bootfs :: "env \<Rightarrow> string \<Rightarrow> unit action" where
  "deploy_linaro_bootfs en bootfs =
     seq [logging ''info'' ''Deploying linaro bootfs'',
          run_cmd en ''udevadm trigger'',
          run_cmd en ''mkdir -p /mnt/boot'',
          run_cmd en ''mount /dev/disk/by-label/testboot /mnt/boot'',
          target_extract en bootfs ''/mnt/boot'' (- 1) 5,
          run_cmd en ''umount /mnt/boot'']"

definition tarball_url :: "config \<Rightarrow> string \<Rightarrow> string" where
  "tarball_url cfg tgz =
     join ''/'' (map (strip ''/'') [lava_image_url cfg, replace tgz (lava_image_tmpdir cfg) []])"

text \<open>The bare \<open>except:\<close> of \<open>_deploy_tarballs\<close> catches every exception.\<close>

definition deploy_tarballs :: "env \<Rightarrow> config \<Rightarrow> string \<Rightarrow> string \<Rightarrow> unit action" where
  "deploy_tarballs en cfg boot_tgz root_tgz =
     (let boot_url = tarball_url cfg boot_tgz;
          root_url = tarball_url cfg root_tgz
      in as_master en cfg
           (bind (format_testpartition en ''ext4'') (\<lambda>_.
            try_except
              (bind (deploy_linaro_rootfs en root_url) (\<lambda>_.
               deploy_linaro_bootfs en boot_url))
              (\<lambda>e. True)
              (\<lambda>e. bind (logging ''exception'' ''Deployment failed'') (\<lambda>_.
                   raise (CriticalError ''Deployment failed''))))))"

section \<open>File exchange with the master image\<close>

definition android_data_label :: "env \<Rightarrow> string action" where
  "android_data_label en =
     bind (has_partition_with_label en (Some ''userdata'')) (\<lambda>found.
     if \<not> found then ret ''sdcard'' else ret ''userdata'')"

definition get_partition :: "env \<Rightarrow> config \<Rightarrow> int \<Rightarrow> string action" where
  "get_partition en cfg partno =
     (if partno = boot_part cfg then ret ''/dev/disk/by-label/testboot''
      else if partno = root_part cfg then ret ''/dev/disk/by-label/testrootfs''
      else if partno = sdcard_part_android_org cfg then ret ''/dev/disk/by-label/sdcard''
      else if partno = data_part_android_org cfg then
        bind (android_data_label en) (\<lambda>lbl. ret (''/dev/disk/by-label/'' @ lbl))
      else raise (RuntimeError (''unknown master image partition('' @ str_int partno @ '')'')))"

definition get_master_ip :: "string option action" where
  "get_master_ip s = (Inr (master_ip s), s)"

definition http_banner :: string where
  "http_banner =
     ''Serving HTTP on 0.0.0.0 port ('' @ backslash @ ''d+) '' @ backslash @ ''.'' @
     backslash @ ''.''"

definition last_two :: "'a list \<Rightarrow> 'a list" where
  "last_two xs = drop (length xs - 2) xs"

text \<open>
  The generator behind the context manager \<open>file_system\<close>.  \<open>body\<close> is the block of the
  caller's \<open>with\<close> statement: it runs at the \<open>yield\<close>, which is recorded in the trace, and
  an exception it raises is raised at the \<open>yield\<close>.
\<close>

definition file_system ::
  "env \<Rightarrow> config \<Rightarrow> int \<Rightarrow> string \<Rightarrow> (string \<Rightarrow> unit action) \<Rightarrow> unit action" where
  "file_system en cfg partno directory body =
     bind (logging ''info'' ''attempting to access master filesystem %r:%s'') (\<lambda>_.
      if directory = ''/'' then raise (AssertionError ''cannot mount entire partition'')
      else as_master en cfg
      (bind (get_partition en cfg partno) (\<lambda>part.
        bind (run_cmd en (''mount '' @ part @ '' /mnt'')) (\<lambda>_.
         try_finally
         (let targetdir = ''/mnt/'' @ directory in
          bind (is_file_exist en targetdir) (\<lambda>found.
           bind (if \<not> found then run_cmd en (''mkdir '' @ targetdir) else ret ()) (\<lambda>_.
            (case path_split targetdir of
             (parent_dir, target_name) \<Rightarrow>
             bind (run_cmd en (''nice tar -czf /tmp/fs.tgz -C '' @ parent_dir @ '' '' @ target_name)) (\<lambda>_.
              bind (run_cmd en ''cd /tmp'') (\<lambda>_.
               bind (sendline ''python -m SimpleHTTPServer 0 2>/dev/null'') (\<lambda>_.
                bind (expect en [Re http_banner, PEOF, PTIMEOUT] (- 1)) (\<lambda>(match_id, gs).
                 if match_id \<noteq> 0 then
                 bind (logging ''error'' ''Unable to start HTTP server on master'') (\<lambda>_.
                  raise (CriticalError ''Unable to start HTTP server on master''))
                 else
                 (case gs of
                  [] \<Rightarrow> raise (OtherError ''IndexError'')
                  | port # _ \<Rightarrow>
                  bind (get_master_ip) (\<lambda>ip.
                   bind (host_str en ''download_with_retry''
                    [scratch_dir cfg, ''http://'' @ str_opt ip @ '':'' @ port @ ''/fs.tgz'']) (\<lambda>tf.
                    bind (host_str en ''time.time'' []) (\<lambda>now.
                     let tfdir = path_join (scratch_dir cfg) now in
                     try_finally
                     (bind (host_unit en ''os.mkdir'' [tfdir]) (\<lambda>_.
                       bind (run_command (''nice tar -C '' @ tfdir @ '' -xzf '' @ tf)) (\<lambda>_.
                        bind (do_event (Yield (path_join tfdir target_name))) (\<lambda>_.
                         body (path_join tfdir target_name)))))
                     (let tf = path_join (scratch_dir cfg) ''fs.tgz'' in
                      bind (host_unit en ''mk_targz'' [tf, tfdir]) (\<lambda>_.
                       bind (host_unit en ''rmtree'' [tfdir]) (\<lambda>_.
                        bind (sendcontrol ''c'') (\<lambda>_.
                         let tf = join ''/'' (last_two (split CHR ''/'' tf));
                         url = lava_image_url cfg @ ''/'' @ tf
                         in bind (run_cmd en (''rm -rf '' @ targetdir)) (\<lambda>_.
                          target_extract en url parent_dir (- 1) 5)))))))))))))))))
         (bind (sendcontrol ''c'') (\<lambda>_.
           run_cmd en ''umount /mnt''))))))"

section \<open>Boot commands\<close>

subsection \<open>Rewriting the boot commands read from an image\<close>

text \<open>
  \<open>\s\<close>, \<open>\d\<close> and \<open>\S\<close> of Python's \<open>re\<close> on byte strings, without flags.
\<close>

definition is_space :: "char \<Rightarrow> bool" where
  "is_space c = (c \<in> set [CHR '' '', CHR 0x09, CHR 0x0A, CHR 0x0B, CHR 0x0C, CHR 0x0D])"

definition is_digit :: "char \<Rightarrow> bool" where
  "is_digit c = (c \<in> set ''0123456789'')"

definition newline :: char where
  "newline = CHR 0x0A"

text \<open>\<open>int(digits)\<close> for a non-empty string of decimal digits.\<close>

definition int_of_digits :: "string \<Rightarrow> int" where
  "int_of_digits ds = foldl (\<lambda>a c. 10 * a + (int (of_char c) - 48)) 0 ds"

text \<open>
  \<open>re.MULTILINE\<close> is 8.  Both calls of \<open>re.sub\<close> pass it as the fourth positional
  argument, which is \<open>count\<close>: at most 8 occurrences are replaced.
\<close>

definition MULTILINE :: nat where
  "MULTILINE = 8"

text \<open>
  A match of \<open>root=UUID=\S+\<close> at the head of the string: what follows the match.  The
  greedy \<open>\S+\<close> takes every character up to the next white space; nothing follows it in
  the pattern, so there is no backtracking.
\<close>

definition match_root_uuid :: "string \<Rightarrow> string option" where
  "match_root_uuid s =
     (if startswith s ''root=UUID='' then
        (let r = drop (length ''root=UUID='') s in
         if takeWhile (\<lambda>c. \<not> is_space c) r = [] then None
         else Some (dropWhile (\<lambda>c. \<not> is_space c) r))
      else None)"

text \<open>
  \<open>re.sub(pattern, repl, string, count)\<close>: the string is scanned from the left; where the
  pattern matches, the replacement is written and the scan resumes after the match; elsewhere
  the character is copied.  Neither pattern matches the empty string.
\<close>

function sub_root_uuid :: "nat \<Rightarrow> string \<Rightarrow> string" where
  "sub_root_uuid count s =
     (if count = 0 \<or> s = [] then s
      else (case match_root_uuid s of
              Some rest \<Rightarrow> ''root=LABEL=testrootfs'' @ sub_root_uuid (count - 1) rest
            | None \<Rightarrow> hd s # sub_root_uuid count (tl s)))"
  by pat_completeness auto
termination
proof (relation "measure (\<lambda>(count, s). length s)")
  show "wf (measure (\<lambda>(count, s). length s))" by simp
next
  fix count :: nat and s rest :: string
  assume "match_root_uuid s = Some rest"
  then have "rest = dropWhile (\<lambda>c. \<not> is_space c) (drop (length ''root=UUID='') s)"
    and "startswith s ''root=UUID=''"
    by (auto simp: match_root_uuid_def Let_def split: if_splits)
  moreover have "length (dropWhile (\<lambda>c. \<not> is_space c) (drop (length ''root=UUID='') s))
      \<le> length (drop (length ''root=UUID='') s)"
    by (rule length_dropWhile_le)
  moreover have "s \<noteq> []" using \<open>startswith s ''root=UUID=''\<close>
    by (auto simp: startswith_def)
  ultimately have "length rest < length s" by (cases s) auto
  then show "((count - 1, rest), (count, s)) \<in> measure (\<lambda>(count, s). length s)" by simp
next
  fix count :: nat and s :: string
  assume "\<not> (count = 0 \<or> s = [])"
  then show "((count, tl s), (count, s)) \<in> measure (\<lambda>(count, s). length s)"
    by (cases s) auto
qed

declare sub_root_uuid.simps [simp del]

text \<open>
  A match of \<open>\s+\d+:(?P<partition>\d+)\s+\<close> at the head of the string: the group
  \<open>partition\<close> and what follows the match.  Each greedy run is followed in the pattern by
  something its own class excludes (a digit, the colon, white space), so a shorter run can
  never lead to a match: the runs are the maximal ones.
\<close>

definition match_partition :: "string \<Rightarrow> (string \<times> string) option" where
  "match_partition s =
     (let r1 = dropWhile is_space s;
          r2 = dropWhile is_digit r1
      in if takeWhile is_space s = [] \<or> takeWhile is_digit r1 = [] then None
         else (case r2 of
                 [] \<Rightarrow> None
               | c # r3 \<Rightarrow>
                   if c = CHR '':'' then
                     (let r4 = dropWhile is_digit r3 in
                      if takeWhile is_digit r3 = [] \<or> takeWhile is_space r4 = [] then None
                      else Some (takeWhile is_digit r3, dropWhile is_space r4))
                   else None))"

definition rewrite_partition_number :: "config \<Rightarrow> string \<Rightarrow> string" where
  "rewrite_partition_number cfg partition_group =
     '' '' @ str_int (boot_device cfg) @ '':'' @
     str_int (int_of_digits partition_group + testboot_offset cfg) @ '' ''"

function sub_partition :: "config \<Rightarrow> nat \<Rightarrow> string \<Rightarrow> string" where
  "sub_partition cfg count s =
     (if count = 0 \<or> s = [] then s
      else (case match_partition s of
              Some (p, rest) \<Rightarrow>
                rewrite_partition_number cfg p @ sub_partition cfg (count - 1) rest
            | None \<Rightarrow> hd s # sub_partition cfg count (tl s)))"
  by pat_completeness auto
termination
proof (relation "measure (\<lambda>(cfg, count, s). length s)")
  show "wf (measure (\<lambda>(cfg, count, s). length s))" by simp
next
  fix cfg :: config and count :: nat and s p rest :: string and x :: "string \<times> string"
  assume "match_partition s = Some x" and "(p, rest) = x"
  then have m: "match_partition s = Some (p, rest)" by simp
  then obtain c r3 where
    r2: "dropWhile is_digit (dropWhile is_space s) = c # r3" and
    rest: "rest = dropWhile is_space (dropWhile is_digit r3)"
    by (auto simp: match_partition_def Let_def split: if_splits list.splits)
  have "length rest \<le> length r3"
    unfolding rest
    by (rule order_trans[OF length_dropWhile_le length_dropWhile_le])
  moreover have "length (c # r3) \<le> length s"
    unfolding r2[symmetric]
    by (rule order_trans[OF length_dropWhile_le length_dropWhile_le])
  ultimately have "length rest < length s" by simp
  then show "((cfg, count - 1, rest), (cfg, count, s)) \<in> measure (\<lambda>(cfg, count, s). length s)"
    by simp
next
  fix cfg :: config and count :: nat and s :: string
  assume "\<not> (count = 0 \<or> s = [])"
  then show "((cfg, count, tl s), (cfg, count, s)) \<in> measure (\<lambda>(cfg, count, s). length s)"
    by (cases s) auto
qed

declare sub_partition.simps [simp del]

definition rewrite_boot_cmds :: "config \<Rightarrow> string \<Rightarrow> string list" where
  "rewrite_boot_cmds cfg cmds =
     split newline (sub_partition cfg MULTILINE (sub_root_uuid MULTILINE cmds))"

subsection \<open>Reading the boot commands of an image\<close>

text \<open>An optional path is a string or \<open>None\<close>; it counts as true when it is a non-empty string.\<close>

definition truthy :: "string option \<Rightarrow> bool" where
  "truthy x = (case x of None \<Rightarrow> False | Some v \<Rightarrow> v \<noteq> [])"

definition assign_boot_cmds_dynamic :: "string list option \<Rightarrow> unit action" where
  "assign_boot_cmds_dynamic v s = (Inr (), s\<lparr>boot_cmds_dynamic := v\<rparr>)"

definition get_boot_cmds_dynamic :: "string list option action" where
  "get_boot_cmds_dynamic s = (Inr (boot_cmds_dynamic s), s)"

text \<open>
  The context manager \<open>image_partition_mounted\<close> (lava_dispatcher.client.lmc_utils) is not
  among the sources: it yields the mount point and releases it when the block is left.
\<close>

definition image_partition_mounted ::
  "env \<Rightarrow> string \<Rightarrow> int \<Rightarrow> (string \<Rightarrow> 'a action) \<Rightarrow> 'a action" where
  "image_partition_mounted en image_file partno body =
     bind (host_str en ''image_partition_mounted'' [image_file, str_int partno]) (\<lambda>mnt.
     try_finally (body mnt) (host_unit en ''image_partition_mounted.exit'' [mnt]))"

text \<open>The loop over \<open>config.boot_files\<close> in a mounted image: the first file that exists.\<close>

fun boot_file_in_image :: "env \<Rightarrow> string \<Rightarrow> string list \<Rightarrow> string option action" where
  "boot_file_in_image en mnt [] = ret None"
| "boot_file_in_image en mnt (boot_file # rest) =
     bind (host_bool en ''os.path.exists'' [path_join mnt boot_file]) (\<lambda>found.
     if found then ret (Some (path_join mnt boot_file))
     else boot_file_in_image en mnt rest)"

text \<open>
  The two nested loops over \<open>config.boot_files\<close> and the extracted files: the \<open>break\<close>
  leaves the inner loop only, so a later boot file that is found replaces an earlier one.
\<close>

fun boot_file_in_tarball :: "string list \<Rightarrow> string list \<Rightarrow> string option \<Rightarrow> string option" where
  "boot_file_in_tarball [] extracted_files boot_file_path = boot_file_path"
| "boot_file_in_tarball (boot_file # rest) extracted_files boot_file_path =
     boot_file_in_tarball rest extracted_files
       (case List.find (\<lambda>file_path. boot_file = basename file_path) extracted_files of
          Some file_path \<Rightarrow> Some file_path
        | None \<Rightarrow> boot_file_path)"

definition read_boot_cmds ::
  "env \<Rightarrow> config \<Rightarrow> string option \<Rightarrow> string option \<Rightarrow> unit action" where
  "read_boot_cmds en cfg image_file boot_tgz =
     (if \<not> read_boot_cmds_from_image cfg then ret ()
      else
      bind get_boot_cmds_dynamic (\<lambda>dynamic.
      if dynamic \<noteq> None then logging ''debug'' ''We already have boot commands in place.''
      else
      bind (if truthy image_file then
              image_partition_mounted en (the image_file) (boot_part cfg)
                (\<lambda>mnt. boot_file_in_image en mnt (boot_files cfg))
            else if truthy boot_tgz then
              bind (host_str en ''mkdtemp'' []) (\<lambda>tmp_dir.
              bind (host_list en ''extract_targz'' [the boot_tgz, tmp_dir]) (\<lambda>extracted_files.
              ret (boot_file_in_tarball (boot_files cfg) extracted_files None)))
            else ret None) (\<lambda>boot_file_path.
      bind (if truthy boot_file_path then host_bool en ''os.path.exists'' [the boot_file_path]
            else ret False) (\<lambda>readable.
      if readable then
        bind (host_str en ''open.read'' [the boot_file_path]) (\<lambda>contents.
        assign_boot_cmds_dynamic (Some (rewrite_boot_cmds cfg contents)))
      else logging ''debug'' ''Unable to read boot commands dynamically.''))))"

subsection \<open>Choosing the boot commands and booting the test image\<close>

text \<open>
  What \<open>_boot_linaro_image\<close> and \<open>_boot\<close> use of the \<open>Target\<close> base class, of
  \<open>boot_options\<close> and of \<open>lava_dispatcher.utils\<close> is not among the sources and is taken
  as given: the options dictionary built from the defaults (option name to value), the
  test whether the configuration carries interactive boot commands of the job file,
  \<open>string_to_list\<close>, \<open>_enter_bootloader\<close> and \<open>_customize_bootloader\<close>.
\<close>

record helpers =
  as_dict :: "(string \<rightharpoonup> string) \<Rightarrow> (string \<rightharpoonup> string)"
  is_job_defined_boot_cmds :: "boot_cmds_cfg \<Rightarrow> bool"
  string_to_list :: "string \<Rightarrow> string list"
  enter_bootloader :: "unit action"
  customize_bootloader :: "boot_cmds_cfg \<Rightarrow> unit action"

definition boot :: "helpers \<Rightarrow> env \<Rightarrow> config \<Rightarrow> boot_cmds_cfg \<Rightarrow> unit action" where
  "boot h en cfg cmds =
     bind (try_except
             (bind (soft_reboot en cfg) (\<lambda>_. enter_bootloader h))
             (\<lambda>e. True)
             (\<lambda>e. bind (logging ''exception'' ''_enter_bootloader failed'') (\<lambda>_.
                  bind (hard_reboot cfg) (\<lambda>_. enter_bootloader h)))) (\<lambda>_.
     customize_bootloader h cmds)"

definition get_deployment_data :: "string \<Rightarrow> string action" where
  "get_deployment_data key s =
     (case deployment_data s key of
        None \<Rightarrow> (Inl (KeyError key), s)
      | Some v \<Rightarrow> (Inr v, s))"

text \<open>\<open>config.cp.get('__main__', key)\<close> and \<open>text.encode('ascii')\<close> on a byte string.\<close>

definition cp_get :: "config \<Rightarrow> string \<Rightarrow> string action" where
  "cp_get cfg key =
     (case cp cfg key of
        None \<Rightarrow> raise (OtherError ''NoOptionError'')
      | Some v \<Rightarrow> ret v)"

definition encode_ascii :: "string \<Rightarrow> string action" where
  "encode_ascii v =
     (if list_all (\<lambda>c. (of_char c :: nat) < 128) v then ret v
      else raise (OtherError ''UnicodeDecodeError''))"

definition boot_linaro_image :: "helpers \<Rightarrow> env \<Rightarrow> config \<Rightarrow> unit action" where
  "boot_linaro_image h en cfg =
     bind (get_deployment_data ''boot_cmds'') (\<lambda>default_key.
     let options = as_dict h [''boot_cmds'' \<mapsto> default_key];
         boot_cmds_job_file = is_job_defined_boot_cmds h (boot_cmds cfg);
         boot_cmds_boot_options =
           (case options ''boot_cmds'' of
              None \<Rightarrow> False
            | Some v \<Rightarrow> v \<noteq> ''boot_cmds'')
     in
     bind get_boot_cmds_dynamic (\<lambda>dynamic.
     bind (if boot_cmds_job_file then
             bind (logging ''info'' ''Overriding boot_cmds from job file'') (\<lambda>_.
             ret (boot_cmds cfg))
           else if boot_cmds_boot_options then
             bind (logging ''info'' ''Overriding boot_cmds from boot_options'') (\<lambda>_.
             bind (logging ''info'' ''boot_option=%s'') (\<lambda>_.
             bind (cp_get cfg (the (options ''boot_cmds''))) (\<lambda>v.
             bind (encode_ascii v) (\<lambda>v.
             ret (BootCmdsList (string_to_list h v))))))
           else if dynamic \<noteq> None then
             bind (logging ''info'' ''Loading boot_cmds from image'') (\<lambda>_.
             ret (BootCmdsList (the dynamic)))
           else
             bind (logging ''info'' ''Loading boot_cmds from device configuration'') (\<lambda>_.
             bind (cp_get cfg default_key) (\<lambda>v.
             bind (encode_ascii v) (\<lambda>v.
             ret (BootCmdsList (string_to_list h v)))))) (\<lambda>cmds.
     bind (logging ''info'' ''boot_cmds: %s'') (\<lambda>_.
     boot h en cfg cmds))))"

section \<open>Observing a run\<close>

text \<open>The events a call appends to the trace, and what is counted in them.\<close>

fun is_command :: "event \<Rightarrow> bool" where
  "is_command (Command c t) = True"
| "is_command _ = False"

definition n_commands :: "event list \<Rightarrow> nat" where
  "n_commands tr = length (filter is_command tr)"




definition extend :: "target \<Rightarrow> event list \<Rightarrow> target" where
  "extend s new = s\<lparr>trace := trace s @ new\<rparr>"

text \<open>A board whose shell leaves the first \<open>k\<close> commands unanswered and accepts the rest.\<close>

definition flaky_env :: "nat \<Rightarrow> env" where
  "flaky_env k =
     \<lparr>console = (\<lambda>tr. TimedOut),
      shell = (\<lambda>tr. if n_commands tr \<le> k then NoResponse else ExitCode 0),
      target_ip = (\<lambda>tr. Inr None),
      host_cmd = (\<lambda>tr. None),
      host_path = (\<lambda>tr. Inr ''/tmp/x''),
      host_exists = (\<lambda>tr. False),
      host_files = (\<lambda>tr. Inr [])\<rparr>"

definition fresh_target :: target where
  "fresh_target =
     \<lparr>master_ip = None, device_version = None, boot_cmds_dynamic = None,
      deployment_data = Map.empty, trace = []\<rparr>"

text \<open>A board that answers every command right away; only \<open>present\<close> is found by the probe.\<close>

definition probe_env :: "string \<Rightarrow> env" where
  "probe_env present =
     \<lparr>console = (\<lambda>tr. TimedOut),
      shell = (\<lambda>tr. if tr \<noteq> [] \<and> last tr = Command (''ls '' @ present @ '' > /dev/null'') (- 1)
                     then ExitCode 0 else ExitCode 2),
      target_ip = (\<lambda>tr. Inr None),
      host_cmd = (\<lambda>tr. None),
      host_path = (\<lambda>tr. Inr ''/tmp/x''),
      host_exists = (\<lambda>tr. False),
      host_files = (\<lambda>tr. Inr [])\<rparr>"

definition panda_config :: config where
  "panda_config =
     \<lparr>master_str = ''root@master'', boot_retries = 2, soft_boot_cmd = ''reboot'',
      hard_reset_command = [], image_boot_msg = ''Starting kernel'', lava_proxy = [],
      lava_image_tmpdir = ''/srv/images'', lava_image_url = ''http://host/images'',
      scratch_dir = ''/srv/images/tmp'', boot_device = 0, testboot_offset = 2,
      read_boot_cmds_from_image = True, boot_part = 1, root_part = 2,
      sdcard_part_android_org = 3, data_part_android_org = 4, boot_files = [''boot.txt''],
      boot_cmds = BootCmdsKey ''boot_cmds'',
      cp = [''boot_cmds'' \<mapsto> ''mmc init'', ''boot_cmds_android'' \<mapsto> ''mmc rescan'']\<rparr>"

text \<open>
  The flag \<open>boot_cmds_boot_options\<close> of \<open>_boot_linaro_image\<close>: the options have an entry
  \<open>boot_cmds\<close> whose value is not the literal \<open>'boot_cmds'\<close>.  The test looks at the value
  only: it does not look at where the value comes from, the job or the default.
\<close>

definition boot_cmds_boot_options :: "helpers \<Rightarrow> string \<Rightarrow> bool" where
  "boot_cmds_boot_options h key =
     (case as_dict h [''boot_cmds'' \<mapsto> key] ''boot_cmds'' of
        None \<Rightarrow> False
      | Some v \<Rightarrow> v \<noteq> ''boot_cmds'')"

definition is_ascii :: "string \<Rightarrow> bool" where
  "is_ascii v = list_all (\<lambda>c. (of_char c :: nat) < 128) v"

text \<open>
  Helpers for a job whose boot option \<open>boot_cmds\<close> is \<open>job_option\<close>: the options are the
  defaults, with the value the job gives, when it gives one, in place of the default.
\<close>

definition plain_helpers :: "string option \<Rightarrow> helpers" where
  "plain_helpers job_option =
     \<lparr>as_dict = (\<lambda>defaults. case job_option of
                                None \<Rightarrow> defaults
                              | Some v \<Rightarrow> defaults(''boot_cmds'' \<mapsto> v)),
      is_job_defined_boot_cmds = (\<lambda>c. case c of BootCmdsList l \<Rightarrow> True | BootCmdsKey k \<Rightarrow> False),
      string_to_list = split newline,
      enter_bootloader = ret (),
      customize_bootloader = (\<lambda>c. ret ())\<rparr>"

definition deployed_target :: target where
  "deployed_target =
     \<lparr>master_ip = Some ''10.0.0.7'', device_version = None,
      boot_cmds_dynamic = Some [''mmc part'', ''bootm''],
      deployment_data = [''boot_cmds'' \<mapsto> ''boot_cmds''], trace = []\<rparr>"

text \<open>The same target with deployment data whose default key is \<open>boot_cmds_android\<close>.\<close>

definition android_target :: target where
  "android_target = deployed_target\<lparr>deployment_data := [''boot_cmds'' \<mapsto> ''boot_cmds_android'']\<rparr>"

text \<open>
  The suffixes of a string: the places where a scan can try a match.  A blob has nothing to
  rewrite when neither pattern matches at any place.
\<close>

fun tails :: "'a list \<Rightarrow> 'a list list" where
  "tails [] = [[]]"
| "tails (x # xs) = (x # xs) # tails xs"

definition nothing_to_rewrite :: "string \<Rightarrow> bool" where
  "nothing_to_rewrite cmds =
     list_all (\<lambda>t. match_root_uuid t = None \<and> match_partition t = None) (tails cmds)"

text \<open>
  Two boards already at the master prompt: one whose shell fails every command, one whose
  shell accepts the first \<open>k\<close> commands and fails the rest.
\<close>

definition broken_disk_env :: env where
  "broken_disk_env =
     \<lparr>console = (\<lambda>tr. Matched 0 []),
      shell = (\<lambda>tr. ExitCode 1),
      target_ip = (\<lambda>tr. Inr None),
      host_cmd = (\<lambda>tr. None),
      host_path = (\<lambda>tr. Inr ''/tmp/x''),
      host_exists = (\<lambda>tr. False),
      host_files = (\<lambda>tr. Inr [])\<rparr>"

definition failing_after_env :: "nat \<Rightarrow> env" where
  "failing_after_env k =
     \<lparr>console = (\<lambda>tr. Matched 0 []),
      shell = (\<lambda>tr. if n_commands tr \<le> k then ExitCode 0 else ExitCode 1),
      target_ip = (\<lambda>tr. Inr None),
      host_cmd = (\<lambda>tr. None),
      host_path = (\<lambda>tr. Inr ''/tmp/x''),
      host_exists = (\<lambda>tr. False),
      host_files = (\<lambda>tr. Inr [])\<rparr>"

definition formatted_events :: "event list" where
  "formatted_events =
     [SendLine [], Expect [Re (MASTER_PS1_PATTERN panda_config), PTIMEOUT] 10,
      Log ''info'' ''Format testboot and testrootfs partitions'',
      Command ''umount /dev/disk/by-label/testrootfs'' (- 1),
      Command ''nice mkfs -t ext4 -q /dev/disk/by-label/testrootfs -L testrootfs'' 1800,
      Command ''umount /dev/disk/by-label/testboot'' (- 1),
      Command ''nice mkfs.vfat /dev/disk/by-label/testboot -n testboot'' (- 1)]"

text \<open>
  The reboots of a run, read off the records that \<open>_soft_reboot\<close> and \<open>_hard_reboot\<close>
  log on entry, and the attempts, read off the record that opens each iteration of the
  loop of \<open>boot_master_image\<close>.
\<close>

datatype reboot = Soft | Hard

fun reboots_of :: "event list \<Rightarrow> reboot list" where
  "reboots_of [] = []"
| "reboots_of (Log level msg # tr) =
     (if msg = ''Perform soft reboot the system'' then Soft # reboots_of tr
      else if msg = ''Perform hard reset on the system'' then Hard # reboots_of tr
      else reboots_of tr)"
| "reboots_of (_ # tr) = reboots_of tr"

definition n_attempts :: "event list \<Rightarrow> nat" where
  "n_attempts tr =
     count_list tr (Log ''info'' ''Booting the system master image. Attempt: %d'')"

text \<open>
  Rebooting with the given action and awaiting the master image always fails, with one of
  the two errors the loop catches.
\<close>

definition fails_to_boot :: "env \<Rightarrow> config \<Rightarrow> unit action \<Rightarrow> bool" where
  "fails_to_boot en cfg reboot_action =
     (\<forall>s. case bind reboot_action (\<lambda>_. wait_for_master_boot en cfg) s of
            (Inl e, s') \<Rightarrow> reboot_failure e
          | (Inr x, s') \<Rightarrow> False)"

text \<open>The schedule in the words of the specification: the first attempt soft, the remainder hard.\<close>

definition first_soft_then_hard :: "nat \<Rightarrow> reboot list" where
  "first_soft_then_hard n = Soft # replicate (n - 1) Hard"

text \<open>
  What a piece of code adds to the trace: every event it appends satisfies \<open>P\<close>, and it
  only appends.  The clean-up of \<open>file_system\<close> is the interrupt of the HTTP server
  followed by the \<open>umount\<close> command.
\<close>

fun not_yield :: "event \<Rightarrow> bool" where
  "not_yield (Yield p) = False"
| "not_yield _ = True"

definition emits :: "(event \<Rightarrow> bool) \<Rightarrow> 'a action \<Rightarrow> bool" where
  "emits P m = (\<forall>s. \<exists>new. trace (snd (m s)) = trace s @ new \<and> list_all P new)"

definition ends_with_cleanup :: "event list \<Rightarrow> bool" where
  "ends_with_cleanup new =
     (\<exists>mid. new = mid @ [SendControl ''c'', Command ''umount /mnt'' (- 1)])"

definition guarded :: "'a action \<Rightarrow> bool" where
  "guarded m =
     (\<forall>s. \<exists>new. trace (snd (m s)) = trace s @ new \<and>
        (list_all not_yield new \<or> ends_with_cleanup new))"

text \<open>
  A board on which the file exchange goes through, and the trace of an exchange of
  \<open>lava/results\<close> on the root partition whose \<open>with\<close> block raises.
\<close>

definition exchange_env :: env where
  "exchange_env =
     \<lparr>console = (\<lambda>tr. Matched 0 [''8000'']),
      shell = (\<lambda>tr. ExitCode 0),
      target_ip = (\<lambda>tr. Inr None),
      host_cmd = (\<lambda>tr. None),
      host_path = (\<lambda>tr. if tr \<noteq> [] \<and> last tr = Host ''time.time'' [] then Inr ''1389.5''
                         else Inr ''/srv/images/tmp/fs.tgz''),
      host_exists = (\<lambda>tr. False),
      host_files = (\<lambda>tr. Inr [])\<rparr>"

definition exchange_events :: "event list" where
  "exchange_events =
     [Log ''info'' ''attempting to access master filesystem %r:%s'',
      SendLine [],
      Expect [Re (MASTER_PS1_PATTERN panda_config), PTIMEOUT] 10,
      Command ''mount /dev/disk/by-label/testrootfs /mnt'' (- 1),
      Command ''ls /mnt/lava/results > /dev/null'' (- 1),
      Command ''nice tar -czf /tmp/fs.tgz -C /mnt/lava results'' (- 1),
      Command ''cd /tmp'' (- 1),
      SendLine ''python -m SimpleHTTPServer 0 2>/dev/null'',
      Expect [Re http_banner, PEOF, PTIMEOUT] (- 1),
      Host ''download_with_retry'' [''/srv/images/tmp'', ''http://10.0.0.7:8000/fs.tgz''],
      Host ''time.time'' [],
      Host ''os.mkdir'' [''/srv/images/tmp/1389.5''],
      HostCommand ''nice tar -C /srv/images/tmp/1389.5 -xzf /srv/images/tmp/fs.tgz'',
      Yield ''/srv/images/tmp/1389.5/results'',
      Host ''mk_targz'' [''/srv/images/tmp/fs.tgz'', ''/srv/images/tmp/1389.5''],
      Host ''rmtree'' [''/srv/images/tmp/1389.5''],
      SendControl ''c'',
      Command ''rm -rf /mnt/lava/results'' (- 1),
      Command (extract_cmd ''http://host/images/tmp/fs.tgz'' ''/mnt/lava'' ''z'') (- 1),
      SendControl ''c'',
      Command ''umount /mnt'' (- 1)]"

section \<open>Properties\<close>

subsection \<open>Symbolic execution of console actions\<close>

lemma extend_extend: "extend (extend s a) b = extend s (a @ b)"
  by (simp add: extend_def)

lemma emit_extend: "emit ev s = extend s [ev]"
  by (simp add: emit_def extend_def)

lemma trace_extend: "trace (extend s new) = trace s @ new"
  by (simp add: extend_def)





lemma do_event_extend: "do_event ev s = (Inr (), extend s [ev])"
  by (simp add: do_event_def emit_extend)

lemma bind_do_event: "bind (do_event ev) f s = f () (extend s [ev])"
  by (simp add: bind_def do_event_extend)

lemmas console_defs = sendcontrol_def sendline_def send_def empty_buffer_def logging_def
  sleep_def run_command_def

lemmas exec_simps = console_defs bind_do_event do_event_extend ret_def raise_def extend_extend




subsection \<open>Tarball transfer\<close>

text \<open>
  C7: a transfer URL whose extension is neither \<open>.gz\<close>/\<open>.tgz\<close> nor \<open>.bz2\<close> makes
  \<open>target_extract\<close> raise at once: the error is returned in the unchanged state, so no
  command was sent, no attempt made and no sleep taken, whatever the retry count.
\<close>

theorem target_extract_bad_extension:
  "\<not> endswith tar_url ''.gz'' \<Longrightarrow> \<not> endswith tar_url ''.tgz'' \<Longrightarrow>
   \<not> endswith tar_url ''.bz2'' \<Longrightarrow>
   target_extract en tar_url dest timeout num_retry s =
     (Inl (RuntimeError (''bad file extension: '' @ tar_url)), s)"
  by (simp add: target_extract_def)

theorem target_extract_bad_extension_witness:
  "\<not> endswith ''http://host/images/root.tar.xz'' ''.gz'' \<and>
   \<not> endswith ''http://host/images/root.tar.xz'' ''.tgz'' \<and>
   \<not> endswith ''http://host/images/root.tar.xz'' ''.bz2'' \<and>
   target_extract (flaky_env 0) ''http://host/images/root.tar.xz'' ''/mnt/root'' (- 1) 5
       fresh_target =
     (Inl (RuntimeError ''bad file extension: http://host/images/root.tar.xz''), fresh_target)"
proof -
  have a: "\<not> endswith ''http://host/images/root.tar.xz'' ''.gz''"
    and b: "\<not> endswith ''http://host/images/root.tar.xz'' ''.tgz''"
    and c: "\<not> endswith ''http://host/images/root.tar.xz'' ''.bz2''"
    by (simp_all add: endswith_def)
  show ?thesis
    using a b c target_extract_bad_extension [OF a b c, of "flaky_env 0" "''/mnt/root''" "- 1" 5
        fresh_target]
    by simp
qed



subsection \<open>Probing for partitions and files\<close>

lemma run_exit_code:
  "shell en (trace s @ [Command cmd t]) = ExitCode rc \<Longrightarrow>
   run en cmd resp t True s = (Inr (Rc rc), extend s [Command cmd t])"
  by (simp add: run_def emit_extend trace_extend Let_def)

text \<open>
  C10: for the null and the empty label \<open>has_partition_with_label\<close> answers \<open>False\<close> in the
  unchanged state, so that no command went to the board; for any other label it is
  \<open>is_file_exist\<close> on \<open>/dev/disk/by-label/<label>\<close>; and when the probe command gives an
  exit code, \<open>is_file_exist\<close> answers whether that code is 0, having sent that one command.
\<close>

theorem has_partition_with_label_probe:
  "has_partition_with_label en None s = (Inr False, s) \<and>
   has_partition_with_label en (Some []) s = (Inr False, s) \<and>
   (l \<noteq> [] \<longrightarrow>
      has_partition_with_label en (Some l) s =
        is_file_exist en (''/dev/disk/by-label/'' @ l) s) \<and>
   (shell en (trace s @ [Command (''ls '' @ path @ '' > /dev/null'') (- 1)]) = ExitCode rc \<longrightarrow>
      is_file_exist en path s =
        (Inr (rc = 0), extend s [Command (''ls '' @ path @ '' > /dev/null'') (- 1)]))"
  by (auto simp: has_partition_with_label_def is_file_exist_def ret_def bind_def run_exit_code)

theorem has_partition_with_label_probe_witness:
  "has_partition_with_label (probe_env ''/dev/disk/by-label/sdcard'') (Some ''sdcard'')
       fresh_target =
     (Inr True,
      extend fresh_target [Command ''ls /dev/disk/by-label/sdcard > /dev/null'' (- 1)]) \<and>
   has_partition_with_label (probe_env ''/dev/disk/by-label/sdcard'') (Some ''userdata'')
       fresh_target =
     (Inr False,
      extend fresh_target [Command ''ls /dev/disk/by-label/userdata > /dev/null'' (- 1)])"
  using has_partition_with_label_probe [of "probe_env ''/dev/disk/by-label/sdcard''" fresh_target
      "''sdcard''" "''/dev/disk/by-label/sdcard''" 0]
    has_partition_with_label_probe [of "probe_env ''/dev/disk/by-label/sdcard''" fresh_target
      "''userdata''" "''/dev/disk/by-label/userdata''" 2]
  by (simp add: probe_env_def fresh_target_def)

subsection \<open>Reboots and the cached address\<close>

text \<open>
  C9: after \<open>_soft_reboot\<close> and after \<open>_hard_reboot\<close>, however they end, the cached
  \<open>master_ip\<close> is \<open>None\<close>; and the address cached before the call has no influence on
  what the call does, the reset coming before anything is sent.
\<close>

theorem reboot_resets_master_ip:
  "master_ip (snd (soft_reboot en cfg s)) = None \<and>
   master_ip (snd (hard_reboot cfg s)) = None \<and>
   soft_reboot en cfg s = soft_reboot en cfg (s\<lparr>master_ip := None\<rparr>) \<and>
   hard_reboot cfg s = hard_reboot cfg (s\<lparr>master_ip := None\<rparr>)"
  by (auto simp: soft_reboot_def hard_reboot_def exec_simps assign_master_ip_def bind_def
      expect_def emit_def extend_def Let_def
      split: outcome.splits option.splits)

theorem reboot_resets_master_ip_witness:
  "master_ip deployed_target = Some ''10.0.0.7'' \<and>
   master_ip (snd (soft_reboot (flaky_env 0) panda_config deployed_target)) = None \<and>
   master_ip (snd (hard_reboot panda_config deployed_target)) = None"
proof -
  have "master_ip deployed_target = Some ''10.0.0.7''"
    by (simp add: deployed_target_def)
  then show ?thesis
    using reboot_resets_master_ip [of "flaky_env 0" panda_config deployed_target]
    by blast
qed

subsection \<open>Boot commands: cache and precedence\<close>

text \<open>
  C8: once dynamic boot commands are stored, \<open>_read_boot_cmds\<close> returns at once, for any
  image and tarball: the stored commands stay, nothing is mounted, extracted or read, and
  the state changes by at most the debug record.
\<close>

theorem read_boot_cmds_cached:
  "boot_cmds_dynamic s = Some cmds \<Longrightarrow>
   read_boot_cmds en cfg image_file boot_tgz s =
     (Inr (), if read_boot_cmds_from_image cfg
              then extend s [Log ''debug'' ''We already have boot commands in place.'']
              else s)"
  by (simp add: read_boot_cmds_def get_boot_cmds_dynamic_def bind_def exec_simps)

theorem read_boot_cmds_cached_witness:
  "boot_cmds_dynamic deployed_target = Some [''mmc part'', ''bootm''] \<and>
   read_boot_cmds (flaky_env 0) panda_config (Some ''/srv/images/tmp/sd.img'') None
       deployed_target =
     (Inr (), extend deployed_target [Log ''debug'' ''We already have boot commands in place.''])"
proof -
  have c: "boot_cmds_dynamic deployed_target = Some [''mmc part'', ''bootm'']"
    by (simp add: deployed_target_def)
  show ?thesis
    using c read_boot_cmds_cached [OF c, of "flaky_env 0" panda_config
        "Some ''/srv/images/tmp/sd.img''" None]
    by (simp add: panda_config_def)
qed

text \<open>
  The four branches of \<open>_boot_linaro_image\<close>, with the key \<open>boot_cmds\<close> present in the
  deployment data: the interactive commands of the job file whenever there are any;
  failing that, when the flag \<open>boot_cmds_boot_options\<close> is set, the commands that the value
  of the option names in the device configuration; failing that the commands read from
  the image; and only then the commands of the default key.
\<close>

lemma boot_linaro_image_branches:
  assumes "deployment_data s ''boot_cmds'' = Some key"
  shows
    "(is_job_defined_boot_cmds h (boot_cmds cfg) \<longrightarrow>
        boot_linaro_image h en cfg s =
          boot h en cfg (boot_cmds cfg)
            (extend s [Log ''info'' ''Overriding boot_cmds from job file'',
                       Log ''info'' ''boot_cmds: %s''])) \<and>
     (\<not> is_job_defined_boot_cmds h (boot_cmds cfg) \<and> boot_cmds_boot_options h key \<and>
      as_dict h [''boot_cmds'' \<mapsto> key] ''boot_cmds'' = Some opt \<and>
      cp cfg opt = Some text \<and> is_ascii text \<longrightarrow>
        boot_linaro_image h en cfg s =
          boot h en cfg (BootCmdsList (string_to_list h text))
            (extend s [Log ''info'' ''Overriding boot_cmds from boot_options'',
                       Log ''info'' ''boot_option=%s'',
                       Log ''info'' ''boot_cmds: %s''])) \<and>
     (\<not> is_job_defined_boot_cmds h (boot_cmds cfg) \<and> \<not> boot_cmds_boot_options h key \<and>
      boot_cmds_dynamic s = Some dyn \<longrightarrow>
        boot_linaro_image h en cfg s =
          boot h en cfg (BootCmdsList dyn)
            (extend s [Log ''info'' ''Loading boot_cmds from image'',
                       Log ''info'' ''boot_cmds: %s''])) \<and>
     (\<not> is_job_defined_boot_cmds h (boot_cmds cfg) \<and> \<not> boot_cmds_boot_options h key \<and>
      boot_cmds_dynamic s = None \<and> cp cfg key = Some text \<and> is_ascii text \<longrightarrow>
        boot_linaro_image h en cfg s =
          boot h en cfg (BootCmdsList (string_to_list h text))
            (extend s [Log ''info'' ''Loading boot_cmds from device configuration'',
                       Log ''info'' ''boot_cmds: %s'']))"
proof -
  have dd: "get_deployment_data ''boot_cmds'' s = (Inr key, s)"
    using assms by (simp add: get_deployment_data_def)
  have dyn: "get_boot_cmds_dynamic s = (Inr (boot_cmds_dynamic s), s)"
    by (simp add: get_boot_cmds_dynamic_def)
  show ?thesis
    by (auto simp: boot_linaro_image_def bind_def dd dyn Let_def exec_simps
        boot_cmds_boot_options_def is_ascii_def cp_get_def encode_ascii_def
        split: option.splits)
qed

text \<open>
  C4: the order job-file commands, job boot option, commands read from the image, default
  of the device configuration is the one the comments of \<open>_boot_linaro_image\<close> give, and
  the job-file commands do come first.  The next two levels do not hold on the code, whose
  test for a boot-option override compares the value of the option with the literal
  \<open>'boot_cmds'\<close>.  With the default key \<open>boot_cmds_android\<close>, no boot option in the job
  and commands read from the image at hand, the code boots with the commands of the
  device configuration, not with those of the image.  With the same default key and the
  job's boot option \<open>boot_cmds\<close>, the code boots with the commands of the image, not with
  the ones the job's option names.
\<close>

theorem boot_linaro_image_override_test_misses:
  "boot_cmds_dynamic android_target = Some [''mmc part'', ''bootm''] \<and>
   cp panda_config ''boot_cmds_android'' = Some ''mmc rescan'' \<and>
   cp panda_config ''boot_cmds'' = Some ''mmc init'' \<and>
   boot_linaro_image (plain_helpers None) (flaky_env 0) panda_config android_target =
     boot (plain_helpers None) (flaky_env 0) panda_config
       (BootCmdsList [''mmc rescan''])
       (extend android_target [Log ''info'' ''Overriding boot_cmds from boot_options'',
                               Log ''info'' ''boot_option=%s'',
                               Log ''info'' ''boot_cmds: %s'']) \<and>
   boot_linaro_image (plain_helpers (Some ''boot_cmds'')) (flaky_env 0) panda_config
       android_target =
     boot (plain_helpers (Some ''boot_cmds'')) (flaky_env 0) panda_config
       (BootCmdsList [''mmc part'', ''bootm''])
       (extend android_target [Log ''info'' ''Loading boot_cmds from image'',
                               Log ''info'' ''boot_cmds: %s''])"
proof -
  have k: "deployment_data android_target ''boot_cmds'' = Some ''boot_cmds_android''"
    by (simp add: android_target_def)
  have d: "boot_cmds_dynamic android_target = Some [''mmc part'', ''bootm'']"
    by (simp add: android_target_def deployed_target_def)
  have c: "cp panda_config ''boot_cmds_android'' = Some ''mmc rescan''"
    "cp panda_config ''boot_cmds'' = Some ''mmc init''"
    by (simp_all add: panda_config_def)
  show ?thesis
    using k d c
      boot_linaro_image_branches [OF k, of "plain_helpers None" panda_config "flaky_env 0"
        "''boot_cmds_android''" "''mmc rescan''" "[''mmc part'', ''bootm'']"]
      boot_linaro_image_branches [OF k, of "plain_helpers (Some ''boot_cmds'')" panda_config
        "flaky_env 0" "''boot_cmds''" "''mmc init''" "[''mmc part'', ''bootm'']"]
    by (simp add: plain_helpers_def panda_config_def boot_cmds_boot_options_def is_ascii_def
        newline_def)
qed

subsection \<open>Rewriting boot commands\<close>

lemma sub_root_uuid_id:
  "list_all (\<lambda>t. match_root_uuid t = None) (tails s) \<Longrightarrow> sub_root_uuid n s = s"
proof (induction s)
  case Nil
  show ?case by (subst sub_root_uuid.simps) simp
next
  case (Cons c cs)
  then show ?case by (subst sub_root_uuid.simps) simp
qed

lemma sub_partition_id:
  "list_all (\<lambda>t. match_partition t = None) (tails s) \<Longrightarrow> sub_partition cfg n s = s"
proof (induction s)
  case Nil
  show ?case by (subst sub_partition.simps) simp
next
  case (Cons c cs)
  then show ?case by (subst sub_partition.simps) simp
qed

lemma split_nonempty: "split c s \<noteq> []"
  by (induction s) (auto split: list.splits)

lemma join_split: "join [c] (split c s) = s"
proof (induction s)
  case Nil
  show ?case by simp
next
  case (Cons x xs)
  obtain w ws where w: "split c xs = w # ws"
    using split_nonempty[of c xs] by (cases "split c xs") auto
  show ?case
  proof (cases "x = c")
    case True
    with Cons w show ?thesis by simp
  next
    case False
    with Cons w show ?thesis by (cases ws) auto
  qed
qed

text \<open>
  C5, as the code has it: on a blob with no \<open>root=UUID=\<close> reference and no partition
  reference for the pattern to match, the rewrite changes nothing: it returns the lines of
  the blob, and rewriting these lines, joined again, gives the same lines.
\<close>

theorem rewrite_boot_cmds_nothing_to_rewrite:
  assumes "nothing_to_rewrite cmds"
  shows "rewrite_boot_cmds cfg cmds = split newline cmds \<and>
         rewrite_boot_cmds cfg (join [newline] (rewrite_boot_cmds cfg cmds)) =
           rewrite_boot_cmds cfg cmds"
proof -
  from assms have a: "list_all (\<lambda>t. match_root_uuid t = None) (tails cmds)"
    and b: "list_all (\<lambda>t. match_partition t = None) (tails cmds)"
    by (simp_all add: nothing_to_rewrite_def list_all_iff)
  have r: "rewrite_boot_cmds cfg cmds = split newline cmds"
    by (simp add: rewrite_boot_cmds_def sub_root_uuid_id[OF a] sub_partition_id[OF b])
  show ?thesis by (simp add: r join_split)
qed

theorem rewrite_boot_cmds_nothing_to_rewrite_witness:
  "nothing_to_rewrite ''setenv bootargs root=LABEL=testrootfs ro\<newline>bootm 0x80000000'' \<and>
   rewrite_boot_cmds panda_config
       ''setenv bootargs root=LABEL=testrootfs ro\<newline>bootm 0x80000000'' =
     [''setenv bootargs root=LABEL=testrootfs ro'', ''bootm 0x80000000'']"
proof -
  have n: "nothing_to_rewrite ''setenv bootargs root=LABEL=testrootfs ro\<newline>bootm 0x80000000''"
    by code_simp
  have s: "split newline ''setenv bootargs root=LABEL=testrootfs ro\<newline>bootm 0x80000000'' =
      [''setenv bootargs root=LABEL=testrootfs ro'', ''bootm 0x80000000'']"
    by code_simp
  show ?thesis
    using n rewrite_boot_cmds_nothing_to_rewrite [OF n, of panda_config] s by simp
qed

text \<open>
  C5, as stated, fails: with a test partition offset of 2, the blob with the reference
  \<open>0:3\<close> is rewritten to one with \<open>0:5\<close>, which has no \<open>root=UUID=\<close> reference and
  whose reference is the offset one; rewriting it again gives \<open>0:7\<close>.
\<close>

theorem rewrite_boot_cmds_not_idempotent:
  "rewrite_boot_cmds panda_config ''fatload mmc 0:3 0x80000000 uImage'' =
     [''fatload mmc 0:5 0x80000000 uImage''] \<and>
   rewrite_boot_cmds panda_config
       (join [newline] (rewrite_boot_cmds panda_config ''fatload mmc 0:3 0x80000000 uImage'')) =
     [''fatload mmc 0:7 0x80000000 uImage''] \<and>
   rewrite_boot_cmds panda_config
       (join [newline] (rewrite_boot_cmds panda_config ''fatload mmc 0:3 0x80000000 uImage'')) \<noteq>
     rewrite_boot_cmds panda_config ''fatload mmc 0:3 0x80000000 uImage''"
  by code_simp

subsection \<open>Failure policy of the deployment\<close>

lemma as_master_bind: "as_master en cfg (bind m f) = bind (as_master en cfg m) f"
  by (rule ext) (auto simp: as_master_def bind_def split: prod.splits sum.splits)

text \<open>
  C6, as the code has it: \<open>_deploy_tarballs\<close> formats the partitions before its \<open>try\<close>
  block.  An exception raised while entering the master session or formatting leaves
  \<open>_deploy_tarballs\<close> as it was raised.  Once formatting has succeeded, any exception
  raised while deploying the root or the boot file system is logged and replaced by
  \<open>CriticalError("Deployment failed")\<close>; the state is the one at the failure with the log
  record added: nothing more is sent to the board, nothing is rolled back.
\<close>

theorem deploy_tarballs_failure_policy:
  "(as_master en cfg (format_testpartition en ''ext4'') s = (Inl e, s1) \<longrightarrow>
      deploy_tarballs en cfg boot_tgz root_tgz s = (Inl e, s1)) \<and>
   (as_master en cfg (format_testpartition en ''ext4'') s = (Inr (), s1) \<longrightarrow>
      deploy_tarballs en cfg boot_tgz root_tgz s =
        (case bind (deploy_linaro_rootfs en (tarball_url cfg root_tgz))
                (\<lambda>_. deploy_linaro_bootfs en (tarball_url cfg boot_tgz)) s1 of
           (Inl e', s2) \<Rightarrow>
             (Inl (CriticalError ''Deployment failed''),
              extend s2 [Log ''exception'' ''Deployment failed''])
         | (Inr x, s2) \<Rightarrow> (Inr x, s2)))"
  by (auto simp: deploy_tarballs_def as_master_bind Let_def bind_def try_except_def
      exec_simps split: prod.splits sum.splits)

theorem deploy_tarballs_failure_policy_witness:
  "as_master (failing_after_env 4) panda_config (format_testpartition (failing_after_env 4) ''ext4'')
       fresh_target = (Inr (), extend fresh_target formatted_events) \<and>
   deploy_tarballs (failing_after_env 4) panda_config ''/srv/images/tmp/boot.tgz''
       ''/srv/images/tmp/root.tgz'' fresh_target =
     (Inl (CriticalError ''Deployment failed''),
      extend fresh_target
        (formatted_events @
         [Log ''info'' ''Deploying linaro image'', Command ''udevadm trigger'' (- 1),
          Log ''exception'' ''Deployment failed'']))"
proof -
  have f: "as_master (failing_after_env 4) panda_config
      (format_testpartition (failing_after_env 4) ''ext4'') fresh_target =
      (Inr (), extend fresh_target formatted_events)"
    by (simp add: as_master_def format_testpartition_def failing_after_env_def
        fresh_target_def exec_simps bind_def expect_def run_def discard_def run_cmd_def emit_def
        extend_def Let_def n_commands_def formatted_events_def)
  have d: "bind (deploy_linaro_rootfs (failing_after_env 4)
                  (tarball_url panda_config ''/srv/images/tmp/root.tgz''))
             (\<lambda>_. deploy_linaro_bootfs (failing_after_env 4)
                  (tarball_url panda_config ''/srv/images/tmp/boot.tgz''))
             (extend fresh_target formatted_events) =
      (Inl OperationFailed,
       extend fresh_target
         (formatted_events @
          [Log ''info'' ''Deploying linaro image'', Command ''udevadm trigger'' (- 1)]))"
    by (simp add: deploy_linaro_rootfs_def failing_after_env_def
        fresh_target_def exec_simps bind_def run_def discard_def run_cmd_def emit_def
        extend_def Let_def n_commands_def formatted_events_def)
  show ?thesis
    using f d deploy_tarballs_failure_policy [of "failing_after_env 4" panda_config fresh_target
        OperationFailed "extend fresh_target formatted_events" "''/srv/images/tmp/boot.tgz''"
        "''/srv/images/tmp/root.tgz''"]
    by (simp add: extend_extend)
qed

text \<open>
  C6, as stated, fails for the formatting step: when \<open>mkfs\<close> fails on the board, what
  leaves \<open>_deploy_tarballs\<close> is the \<open>OperationFailed\<close> of the command runner, not a
  \<open>CriticalError\<close>.
\<close>

theorem deploy_tarballs_format_failure_not_critical:
  "deploy_tarballs broken_disk_env panda_config ''/srv/images/tmp/boot.tgz''
       ''/srv/images/tmp/root.tgz'' fresh_target =
   (Inl OperationFailed,
    extend fresh_target
      [SendLine [], Expect [Re (MASTER_PS1_PATTERN panda_config), PTIMEOUT] 10,
       Log ''info'' ''Format testboot and testrootfs partitions'',
       Command ''umount /dev/disk/by-label/testrootfs'' (- 1),
       Command ''nice mkfs -t ext4 -q /dev/disk/by-label/testrootfs -L testrootfs'' 1800])"
  by (simp add: deploy_tarballs_def as_master_def format_testpartition_def broken_disk_env_def
      fresh_target_def exec_simps bind_def expect_def run_def discard_def emit_def extend_def
      Let_def)

subsection \<open>Booting the master image\<close>

lemma reboots_of_append: "reboots_of (a @ b) = reboots_of a @ reboots_of b"
  by (induction a rule: reboots_of.induct) auto

lemma n_attempts_append: "n_attempts (a @ b) = n_attempts a + n_attempts b"
  by (simp add: n_attempts_def)

lemma expect_trace:
  "expect en pats t s = (r, s') \<Longrightarrow> s' = extend s [Expect pats t]"
  by (auto simp: expect_def emit_extend Let_def split: outcome.splits option.splits)

lemma soft_reboot_events:
  "soft_reboot en cfg s = (r, s') \<Longrightarrow>
   \<exists>new. trace s' = trace s @ new \<and> reboots_of new = [Soft] \<and> n_attempts new = 0"
  by (auto simp: soft_reboot_def exec_simps assign_master_ip_def bind_def trace_extend
      n_attempts_def extend_def
      split: prod.splits sum.splits if_splits dest!: expect_trace)

lemma hard_reboot_events:
  "hard_reboot cfg s = (r, s') \<Longrightarrow>
   r = Inr () \<and> (\<exists>new. trace s' = trace s @ new \<and> reboots_of new = [Hard] \<and> n_attempts new = 0)"
  by (auto simp: hard_reboot_def exec_simps assign_master_ip_def bind_def trace_extend
      n_attempts_def extend_def
      split: prod.splits sum.splits if_splits)

lemma wait_for_master_boot_events:
  "wait_for_master_boot en cfg s = (r, s') \<Longrightarrow>
   \<exists>new. trace s' = trace s @ new \<and> reboots_of new = [] \<and> n_attempts new = 0"
  by (auto simp: wait_for_master_boot_def wait_for_prompt_def discard_def exec_simps bind_def
      trace_extend n_attempts_def extend_def
      split: prod.splits sum.splits if_splits dest!: expect_trace)


lemma bind_logging: "bind (logging l m) f s = f () (extend s [Log l m])"
  by (simp add: logging_def bind_do_event)

lemma bind_Inl: "m s = (Inl e, s') \<Longrightarrow> bind m f s = (Inl e, s')"
  by (simp add: bind_def)

lemma bind_Inr: "m s = (Inr x, s') \<Longrightarrow> bind m f s = f x s'"
  by (simp add: bind_def)

lemma try_except_Inl: "m s = (Inl e, s') \<Longrightarrow> catches e \<Longrightarrow> try_except m catches h s = h e s'"
  by (simp add: try_except_def)

lemma try_except_Inr: "m s = (Inr x, s') \<Longrightarrow> try_except m catches h s = (Inr x, s')"
  by (simp add: try_except_def)

lemma reboot_then_wait_events:
  assumes "bind m (\<lambda>_. wait_for_master_boot en cfg) s = (r, s')"
    and "\<forall>r1 s1. m s = (r1, s1) \<longrightarrow>
           (\<exists>new. trace s1 = trace s @ new \<and> reboots_of new = [k] \<and> n_attempts new = 0)"
  shows "\<exists>new. trace s' = trace s @ new \<and> reboots_of new = [k] \<and> n_attempts new = 0"
proof (cases "m s")
  case (Pair r1 s1)
  from assms(2) Pair obtain n1 where
    n1: "trace s1 = trace s @ n1" "reboots_of n1 = [k]" "n_attempts n1 = 0" by blast
  show ?thesis
  proof (cases r1)
    case (Inl e)
    with Pair assms(1) have "s' = s1" by (simp add: bind_def)
    with n1 show ?thesis by blast
  next
    case (Inr x)
    with Pair assms(1) have "wait_for_master_boot en cfg s1 = (r, s')" by (simp add: bind_def)
    from wait_for_master_boot_events[OF this] obtain n2 where
      "trace s' = trace s1 @ n2" "reboots_of n2 = []" "n_attempts n2 = 0" by blast
    with n1 have "trace s' = trace s @ (n1 @ n2)" "reboots_of (n1 @ n2) = [k]"
      "n_attempts (n1 @ n2) = 0"
      by (simp_all add: reboots_of_append n_attempts_append)
    then show ?thesis by blast
  qed
qed

lemma failed_phase:
  assumes "fails_to_boot en cfg m"
  obtains e s' where "bind m (\<lambda>_. wait_for_master_boot en cfg) s = (Inl e, s')"
    and "reboot_failure e"
    and "bind m (\<lambda>_. bind (wait_for_master_boot en cfg) (\<lambda>_. ret True)) s = (Inl e, s')"
proof -
  from assms have "case bind m (\<lambda>_. wait_for_master_boot en cfg) s of
            (Inl e, s') \<Rightarrow> reboot_failure e | (Inr x, s') \<Rightarrow> False"
    by (simp add: fails_to_boot_def)
  then obtain e s' where a: "bind m (\<lambda>_. wait_for_master_boot en cfg) s = (Inl e, s')"
    and b: "reboot_failure e"
    by (auto split: prod.splits sum.splits)
  from a have "bind m (\<lambda>_. bind (wait_for_master_boot en cfg) (\<lambda>_. ret True)) s = (Inl e, s')"
    by (auto simp: bind_def split: prod.splits sum.splits)
  with a b that show thesis by blast
qed

lemma boot_attempt_fails:
  assumes soft: "fails_to_boot en cfg (soft_reboot en cfg)"
    and hard: "fails_to_boot en cfg (hard_reboot cfg)"
  shows "\<exists>s' new. boot_attempt en cfg s = (Inr False, s') \<and> trace s' = trace s @ new \<and>
           n_attempts new = 1 \<and> reboots_of new = [Soft, Hard]"
proof -
  let ?s0 = "extend s [Log ''info'' ''Booting the system master image. Attempt: %d'']"
  from failed_phase[OF soft, of ?s0] obtain e1 s1 where
    a: "bind (soft_reboot en cfg) (\<lambda>_. wait_for_master_boot en cfg) ?s0 = (Inl e1, s1)"
    and a1: "reboot_failure e1"
    and a2: "bind (soft_reboot en cfg) (\<lambda>_. bind (wait_for_master_boot en cfg) (\<lambda>_. ret True)) ?s0
             = (Inl e1, s1)" by blast
  let ?s2 = "extend s1 [Log ''info'' ''Soft reboot failed: %s'']"
  from failed_phase[OF hard, of ?s2] obtain e2 s3 where
    b: "bind (hard_reboot cfg) (\<lambda>_. wait_for_master_boot en cfg) ?s2 = (Inl e2, s3)"
    and b1: "reboot_failure e2"
    and b2: "bind (hard_reboot cfg) (\<lambda>_. bind (wait_for_master_boot en cfg) (\<lambda>_. ret True)) ?s2
             = (Inl e2, s3)" by blast
  let ?s4 = "extend s3 [Log ''warning'' ''Hard reboot into master image failed: %s'']"
  have t1: "\<And>h. try_except
        (bind (soft_reboot en cfg) (\<lambda>_. bind (wait_for_master_boot en cfg) (\<lambda>_. ret True)))
        reboot_failure h ?s0 = h e1 s1"
    using a2 a1 by (rule try_except_Inl)
  have t2: "\<And>h. try_except
        (bind (hard_reboot cfg) (\<lambda>_. bind (wait_for_master_boot en cfg) (\<lambda>_. ret True)))
        reboot_failure h ?s2 = h e2 s3"
    using b2 b1 by (rule try_except_Inl)
  have res: "boot_attempt en cfg s = (Inr False, ?s4)"
    by (simp add: boot_attempt_def bind_def t1 t2 logging_def do_event_extend py_format_def
        ret_def)
  have "\<forall>r1 s1'. soft_reboot en cfg ?s0 = (r1, s1') \<longrightarrow>
      (\<exists>new. trace s1' = trace ?s0 @ new \<and> reboots_of new = [Soft] \<and> n_attempts new = 0)"
    using soft_reboot_events by blast
  from reboot_then_wait_events[OF a this] obtain n1 where
    n1: "trace s1 = trace ?s0 @ n1" "reboots_of n1 = [Soft]" "n_attempts n1 = 0" by blast
  have "\<forall>r1 s1'. hard_reboot cfg ?s2 = (r1, s1') \<longrightarrow>
      (\<exists>new. trace s1' = trace ?s2 @ new \<and> reboots_of new = [Hard] \<and> n_attempts new = 0)"
    using hard_reboot_events by blast
  from reboot_then_wait_events[OF b this] obtain n2 where
    n2: "trace s3 = trace ?s2 @ n2" "reboots_of n2 = [Hard]" "n_attempts n2 = 0" by blast
  define new where "new = [Log ''info'' ''Booting the system master image. Attempt: %d''] @ n1 @
      [Log ''info'' ''Soft reboot failed: %s''] @ n2 @
      [Log ''warning'' ''Hard reboot into master image failed: %s'']"
  have t: "trace ?s4 = trace s @ new"
    by (simp add: trace_extend n1 n2 new_def)
  have c: "n_attempts new = 1"
    using n1(3) n2(3) by (simp add: new_def n_attempts_append) (simp add: n_attempts_def)
  have r: "reboots_of new = [Soft, Hard]"
    using n1(2) n2(2) by (simp add: new_def reboots_of_append)
  from res t c r show ?thesis by blast
qed

lemma boot_master_image_loop_fails:
  assumes soft: "fails_to_boot en cfg (soft_reboot en cfg)"
    and hard: "fails_to_boot en cfg (hard_reboot cfg)"
  shows "k = nat (boot_retries cfg - a) \<Longrightarrow>
         \<exists>s' new. boot_master_image_loop en cfg a s = (Inr False, s') \<and>
           trace s' = trace s @ new \<and> n_attempts new = k \<and>
           reboots_of new = concat (replicate k [Soft, Hard])"
proof (induction k arbitrary: a s)
  case 0
  then have "\<not> a < boot_retries cfg" by simp
  then have "boot_master_image_loop en cfg a s = (Inr False, s)"
    by (subst boot_master_image_loop.simps) simp
  then show ?case by (intro exI[of _ s] exI[of _ "[]"]) (simp add: n_attempts_def)
next
  case (Suc k)
  then have lt: "a < boot_retries cfg" and k: "k = nat (boot_retries cfg - (a + 1))" by simp_all
  from boot_attempt_fails[OF soft hard, of s] obtain s1 n1 where
    s1: "boot_attempt en cfg s = (Inr False, s1)" "trace s1 = trace s @ n1"
      "n_attempts n1 = 1" "reboots_of n1 = [Soft, Hard]" by blast
  from Suc.IH[OF k, of s1] obtain s' n2 where
    s': "boot_master_image_loop en cfg (a + 1) s1 = (Inr False, s')" "trace s' = trace s1 @ n2"
      "n_attempts n2 = k" "reboots_of n2 = concat (replicate k [Soft, Hard])" by blast
  have "boot_master_image_loop en cfg a s = (Inr False, s')"
    using lt s1(1) s'(1) by (subst boot_master_image_loop.simps) simp
  moreover have "trace s' = trace s @ (n1 @ n2)" using s1(2) s'(2) by simp
  moreover have "n_attempts (n1 @ n2) = Suc k" using s1(3) s'(3) by (simp add: n_attempts_append)
  moreover have "reboots_of (n1 @ n2) = concat (replicate (Suc k) [Soft, Hard])"
    using s1(4) s'(4) by (simp add: reboots_of_append)
  ultimately show ?case by blast
qed

lemma boot_master_image_all_fail:
  assumes "1 \<le> boot_retries cfg"
    and soft: "fails_to_boot en cfg (soft_reboot en cfg)"
    and hard: "fails_to_boot en cfg (hard_reboot cfg)"
  shows "\<exists>s' new. boot_master_image en cfg s =
             (Inl (CriticalError ''Could not get master image booted properly''), s') \<and>
           trace s' = trace s @ new \<and>
           n_attempts new = nat (boot_retries cfg) \<and>
           reboots_of new = concat (replicate (nat (boot_retries cfg)) [Soft, Hard])"
proof -
  from boot_master_image_loop_fails[OF soft hard, of "nat (boot_retries cfg)" 0 s]
  obtain s1 n1 where
    s1: "boot_master_image_loop en cfg 0 s = (Inr False, s1)" "trace s1 = trace s @ n1"
      "n_attempts n1 = nat (boot_retries cfg)"
      "reboots_of n1 = concat (replicate (nat (boot_retries cfg)) [Soft, Hard])" by auto
  let ?c = "Log ''critical'' ''Could not get master image booted properly''"
  have "boot_master_image en cfg s =
      (Inl (CriticalError ''Could not get master image booted properly''), extend s1 [?c])"
    by (simp add: boot_master_image_def bind_def s1(1) logging_def do_event_extend raise_def)
  moreover have "trace (extend s1 [?c]) = trace s @ (n1 @ [?c])"
    by (simp add: trace_extend s1(2))
  moreover have "n_attempts (n1 @ [?c]) = nat (boot_retries cfg)"
    by (simp add: n_attempts_append s1(3)) (simp add: n_attempts_def)
  moreover have "reboots_of (n1 @ [?c]) = concat (replicate (nat (boot_retries cfg)) [Soft, Hard])"
    by (simp add: reboots_of_append s1(4))
  ultimately show ?thesis by blast
qed

lemma dead_board_soft:
  "fails_to_boot (flaky_env 0) panda_config (soft_reboot (flaky_env 0) panda_config)"
  by (simp add: fails_to_boot_def soft_reboot_def wait_for_master_boot_def flaky_env_def
      exec_simps bind_def expect_def reboot_failure_def assign_master_ip_def Let_def)

lemma dead_board_hard:
  "fails_to_boot (flaky_env 0) panda_config (hard_reboot panda_config)"
  by (simp add: fails_to_boot_def hard_reboot_def wait_for_master_boot_def flaky_env_def
      panda_config_def exec_simps bind_def expect_def reboot_failure_def
      assign_master_ip_def Let_def)

lemma two_attempts: "concat (replicate (nat 2) [Soft, Hard]) = [Soft, Hard, Soft, Hard]"
  by (simp add: numeral_eq_Suc)

text \<open>
  C1, as the code has it: for a retry count \<open>N\<close> of at least 1, if rebooting and awaiting the
  master image fails every time with \<open>OperationFailed\<close> or a timeout, \<open>boot_master_image\<close>
  makes exactly \<open>N\<close> attempts, each one a soft reboot followed by a hard reboot, and then
  raises the \<open>CriticalError\<close>.
\<close>

theorem boot_master_image_exhausts_retries:
  assumes "1 \<le> boot_retries cfg"
    and soft: "fails_to_boot en cfg (soft_reboot en cfg)"
    and hard: "fails_to_boot en cfg (hard_reboot cfg)"
  shows "\<exists>s' new. boot_master_image en cfg s =
             (Inl (CriticalError ''Could not get master image booted properly''), s') \<and>
           trace s' = trace s @ new \<and>
           n_attempts new = nat (boot_retries cfg) \<and>
           reboots_of new = concat (replicate (nat (boot_retries cfg)) [Soft, Hard])"
  using assms by (rule boot_master_image_all_fail)

theorem boot_master_image_exhausts_retries_witness:
  "1 \<le> boot_retries panda_config \<and>
   fails_to_boot (flaky_env 0) panda_config (soft_reboot (flaky_env 0) panda_config) \<and>
   fails_to_boot (flaky_env 0) panda_config (hard_reboot panda_config) \<and>
   (\<exists>s' new. boot_master_image (flaky_env 0) panda_config fresh_target =
        (Inl (CriticalError ''Could not get master image booted properly''), s') \<and>
      trace s' = trace fresh_target @ new \<and>
      n_attempts new = 2 \<and>
      reboots_of new = [Soft, Hard, Soft, Hard])"
proof -
  have n: "1 \<le> boot_retries panda_config"
    by (simp add: panda_config_def)
  have r: "boot_retries panda_config = 2"
    by (simp add: panda_config_def)
  show ?thesis
    using n dead_board_soft dead_board_hard
      boot_master_image_exhausts_retries [OF n dead_board_soft dead_board_hard, of fresh_target]
    unfolding r two_attempts by simp
qed

text \<open>
  C1, as stated, fails on the schedule: with two retries and a board that never boots, the
  second attempt starts with a soft reboot again.
\<close>

theorem boot_master_image_second_attempt_soft:
  "fst (boot_master_image (flaky_env 0) panda_config fresh_target) =
     Inl (CriticalError ''Could not get master image booted properly'') \<and>
   reboots_of (trace (snd (boot_master_image (flaky_env 0) panda_config fresh_target))) =
     [Soft, Hard, Soft, Hard] \<and>
   reboots_of (trace (snd (boot_master_image (flaky_env 0) panda_config fresh_target))) \<noteq>
     first_soft_then_hard 2"
proof -
  have n: "1 \<le> boot_retries panda_config" and r: "boot_retries panda_config = 2"
    by (simp_all add: panda_config_def)
  from boot_master_image_all_fail [OF n dead_board_soft dead_board_hard, of fresh_target]
  obtain s' new where
    b: "boot_master_image (flaky_env 0) panda_config fresh_target =
          (Inl (CriticalError ''Could not get master image booted properly''), s')"
    and t: "trace s' = trace fresh_target @ new"
    and s: "reboots_of new = concat (replicate (nat (boot_retries panda_config)) [Soft, Hard])"
    by blast
  have "trace s' = new" using t by (simp add: fresh_target_def)
  with s have "reboots_of (trace s') = [Soft, Hard, Soft, Hard]"
    unfolding r two_attempts by simp
  with b show ?thesis by (simp add: first_soft_then_hard_def)
qed

subsection \<open>What the code adds to the trace\<close>

lemma emitsI:
  "(\<And>s. \<exists>new. trace (snd (m s)) = trace s @ new \<and> list_all P new) \<Longrightarrow> emits P m"
  by (simp add: emits_def)

lemma emitsD:
  "emits P m \<Longrightarrow> \<exists>new. trace (snd (m s)) = trace s @ new \<and> list_all P new"
  by (simp add: emits_def)

lemma emits_mono: "emits P m \<Longrightarrow> (\<And>ev. P ev \<Longrightarrow> Q ev) \<Longrightarrow> emits Q m"
  unfolding emits_def list_all_iff by blast

lemma emits_ret [intro!, simp]: "emits P (ret x)"
  by (rule emitsI) (simp add: ret_def)

lemma emits_raise [intro!, simp]: "emits P (raise e)"
  by (rule emitsI) (simp add: raise_def)

lemma emits_do_event: "P ev \<Longrightarrow> emits P (do_event ev)"
  by (rule emitsI) (simp add: do_event_def emit_def)

lemma emits_bind [intro!]:
  assumes "emits P m" and "\<And>x. emits P (f x)"
  shows "emits P (bind m f)"
proof (rule emitsI)
  fix s
  obtain r s1 where m: "m s = (r, s1)" by (cases "m s")
  from emitsD[OF assms(1), of s] m obtain n1 where
    n1: "trace s1 = trace s @ n1" "list_all P n1" by auto
  show "\<exists>new. trace (snd (bind m f s)) = trace s @ new \<and> list_all P new"
  proof (cases r)
    case (Inl e)
    with m n1 show ?thesis by (auto simp: bind_def)
  next
    case (Inr x)
    from emitsD[OF assms(2), of x s1] obtain n2 where
      "trace (snd (f x s1)) = trace s1 @ n2" "list_all P n2" by auto
    with m n1 Inr have "trace (snd (bind m f s)) = trace s @ (n1 @ n2)" "list_all P (n1 @ n2)"
      by (simp_all add: bind_def)
    then show ?thesis by blast
  qed
qed

lemma emits_try_except [intro!]:
  assumes "emits P m" and "\<And>e. emits P (h e)"
  shows "emits P (try_except m catches h)"
proof (rule emitsI)
  fix s
  obtain r s1 where m: "m s = (r, s1)" by (cases "m s")
  from emitsD[OF assms(1), of s] m obtain n1 where
    n1: "trace s1 = trace s @ n1" "list_all P n1" by auto
  show "\<exists>new. trace (snd (try_except m catches h s)) = trace s @ new \<and> list_all P new"
  proof (cases r)
    case (Inr x)
    with m n1 show ?thesis by (auto simp: try_except_def)
  next
    case (Inl e)
    show ?thesis
    proof (cases "catches e")
      case False
      with Inl m n1 show ?thesis by (auto simp: try_except_def)
    next
      case True
      from emitsD[OF assms(2), of e s1] obtain n2 where
        "trace (snd (h e s1)) = trace s1 @ n2" "list_all P n2" by auto
      with m n1 Inl True have "trace (snd (try_except m catches h s)) = trace s @ (n1 @ n2)"
        "list_all P (n1 @ n2)"
        by (simp_all add: try_except_def)
      then show ?thesis by blast
    qed
  qed
qed

lemma emits_try_finally [intro!]:
  assumes "emits P m" and "emits P fin"
  shows "emits P (try_finally m fin)"
proof (rule emitsI)
  fix s
  obtain r s1 where m: "m s = (r, s1)" by (cases "m s")
  from emitsD[OF assms(1), of s] m obtain n1 where
    n1: "trace s1 = trace s @ n1" "list_all P n1" by auto
  obtain r2 s2 where f: "fin s1 = (r2, s2)" by (cases "fin s1")
  from emitsD[OF assms(2), of s1] f obtain n2 where
    n2: "trace s2 = trace s1 @ n2" "list_all P n2" by auto
  have "snd (try_finally m fin s) = s2"
    using m f by (cases r2) (simp_all add: try_finally_def)
  with n1 n2 have "trace (snd (try_finally m fin s)) = trace s @ (n1 @ n2)" "list_all P (n1 @ n2)"
    by simp_all
  then show "\<exists>new. trace (snd (try_finally m fin s)) = trace s @ new \<and> list_all P new" by blast
qed

lemma emits_seq: "list_all (emits P) ms \<Longrightarrow> emits P (seq ms)"
  by (induction ms) auto

lemma emits_if [intro!]: "(b \<Longrightarrow> emits P m) \<Longrightarrow> (\<not> b \<Longrightarrow> emits P m') \<Longrightarrow> emits P (if b then m else m')"
  by simp

lemma emits_discard [intro!]: "emits P m \<Longrightarrow> emits P (discard m)"
  unfolding discard_def by auto

lemma emits_case_prod [intro!]: "(\<And>a b. emits P (f a b)) \<Longrightarrow> emits P (case x of (a, b) \<Rightarrow> f a b)"
  by (cases x) simp

lemma emits_case_option [intro!]:
  "emits P m \<Longrightarrow> (\<And>a. emits P (f a)) \<Longrightarrow> emits P (case x of None \<Rightarrow> m | Some a \<Rightarrow> f a)"
  by (cases x) simp_all

lemma emits_case_list [intro!]:
  "emits P m \<Longrightarrow> (\<And>a as. emits P (f a as)) \<Longrightarrow> emits P (case x of [] \<Rightarrow> m | a # as \<Rightarrow> f a as)"
  by (cases x) simp_all

lemma emits_case_run_result [intro!]:
  "(\<And>rc. emits P (f rc)) \<Longrightarrow> (\<And>i gs. emits P (g i gs)) \<Longrightarrow>
   emits P (case x of Rc rc \<Rightarrow> f rc | Match i gs \<Rightarrow> g i gs)"
  by (cases x) simp_all

lemma emits_let [intro!]: "emits P (f x) \<Longrightarrow> emits P (let y = x in f y)"
  by simp

lemma emits_event_actions:
  "P (SendLine x) \<Longrightarrow> emits P (sendline x)"
  "P (SendControl c) \<Longrightarrow> emits P (sendcontrol c)"
  "P (Send x) \<Longrightarrow> emits P (send x)"
  "P EmptyBuffer \<Longrightarrow> emits P empty_buffer"
  "P (Log l msg) \<Longrightarrow> emits P (logging l msg)"
  "P (Sleep n) \<Longrightarrow> emits P (sleep n)"
  "P (HostCommand cmd) \<Longrightarrow> emits P (run_command cmd)"
  by (simp_all add: console_defs emits_do_event)

lemma emits_expect: "P (Expect pats t) \<Longrightarrow> emits P (expect en pats t)"
  by (rule emitsI)
     (auto simp: expect_def emit_def Let_def split: outcome.splits option.splits)

lemma emits_run: "P (Command cmd t) \<Longrightarrow> emits P (run en cmd resp t failok)"
  by (rule emitsI)
     (auto simp: run_def emit_def Let_def split: cmd_outcome.splits option.splits)

lemma emits_get_target_ip: "P GetTargetIp \<Longrightarrow> emits P (get_target_ip en)"
  by (rule emitsI) (auto simp: get_target_ip_def emit_def Let_def split: sum.splits)

lemma emits_host:
  "P (Host name args) \<Longrightarrow> emits P (host_unit en name args)"
  "P (Host name args) \<Longrightarrow> emits P (host_str en name args)"
  "P (Host name args) \<Longrightarrow> emits P (host_bool en name args)"
  "P (Host name args) \<Longrightarrow> emits P (host_list en name args)"
  by (rule emitsI,
      auto simp: host_unit_def host_str_def host_bool_def host_list_def emit_def Let_def
        split: sum.splits option.splits)+

lemma emits_state_actions:
  "emits P (assign_master_ip v)"
  "emits P (assign_device_version dv)"
  "emits P (assign_boot_cmds_dynamic cmds)"
  "emits P get_master_ip"
  "emits P get_boot_cmds_dynamic"
  "emits P (get_deployment_data key)"
  "emits P (py_format fmt)"
  by (rule emitsI,
      auto simp: assign_master_ip_def assign_device_version_def assign_boot_cmds_dynamic_def
        get_master_ip_def get_boot_cmds_dynamic_def get_deployment_data_def py_format_def
        ret_def raise_def split: option.splits)+

lemmas emits_leaves = emits_event_actions emits_expect emits_run emits_get_target_ip emits_host
  emits_state_actions emits_do_event

lemma quiet_run_cmd: "emits not_yield (run_cmd en cmd)"
  unfolding run_cmd_def by (auto intro!: emits_leaves)

lemma quiet_is_file_exist: "emits not_yield (is_file_exist en path)"
  unfolding is_file_exist_def by (auto intro!: emits_leaves)

lemma quiet_has_partition_with_label: "emits not_yield (has_partition_with_label en label)"
  unfolding has_partition_with_label_def by (auto intro!: quiet_is_file_exist)

lemma quiet_get_partition: "emits not_yield (get_partition en cfg partno)"
  unfolding get_partition_def android_data_label_def
  by (auto intro!: quiet_has_partition_with_label)

lemma quiet_get_device_version: "emits not_yield (get_device_version en)"
  unfolding get_device_version_def by (auto intro!: emits_leaves)

lemma quiet_soft_reboot: "emits not_yield (soft_reboot en cfg)"
  unfolding soft_reboot_def by (auto intro!: emits_leaves)

lemma quiet_hard_reboot: "emits not_yield (hard_reboot cfg)"
  unfolding hard_reboot_def by (auto intro!: emits_leaves emits_seq)

lemma quiet_wait_for_master_boot: "emits not_yield (wait_for_master_boot en cfg)"
  unfolding wait_for_master_boot_def wait_for_prompt_def by (auto intro!: emits_leaves)

lemma quiet_boot_attempt: "emits not_yield (boot_attempt en cfg)"
  unfolding boot_attempt_def
  by (auto intro!: emits_leaves quiet_soft_reboot quiet_hard_reboot quiet_wait_for_master_boot
      quiet_get_device_version)


lemma quiet_boot_master_image_loop: "emits not_yield (boot_master_image_loop en cfg a)"
proof (rule emitsI)
  fix s
  show "\<exists>new. trace (snd (boot_master_image_loop en cfg a s)) = trace s @ new \<and>
      list_all not_yield new"
  proof (induction "nat (boot_retries cfg - a)" arbitrary: a s)
    case 0
    then have "boot_master_image_loop en cfg a s = (Inr False, s)"
      by (subst boot_master_image_loop.simps) simp
    then show ?case by simp
  next
    case (Suc k)
    then have lt: "a < boot_retries cfg" and k: "k = nat (boot_retries cfg - (a + 1))"
      by simp_all
    obtain r s1 where b: "boot_attempt en cfg s = (r, s1)" by (cases "boot_attempt en cfg s")
    from emitsD[OF quiet_boot_attempt, of en cfg s] b obtain n1 where
      n1: "trace s1 = trace s @ n1" "list_all not_yield n1" by auto
    show ?case
    proof (cases "r = Inr False")
      case False
      then have "snd (boot_master_image_loop en cfg a s) = s1"
        using lt b by (subst boot_master_image_loop.simps) (cases r, auto)
      with n1 show ?thesis by auto
    next
      case True
      then have e: "boot_master_image_loop en cfg a s = boot_master_image_loop en cfg (a + 1) s1"
        using lt b by (subst boot_master_image_loop.simps) simp
      from Suc.hyps(1)[OF k, of s1] obtain n2 where
        "trace (snd (boot_master_image_loop en cfg (a + 1) s1)) = trace s1 @ n2"
        "list_all not_yield n2" by blast
      with n1 e have "trace (snd (boot_master_image_loop en cfg a s)) = trace s @ (n1 @ n2)"
        "list_all not_yield (n1 @ n2)" by simp_all
      then show ?thesis by blast
    qed
  qed
qed

lemma quiet_boot_master_image: "emits not_yield (boot_master_image en cfg)"
  unfolding boot_master_image_def
  by (auto intro!: emits_leaves quiet_boot_master_image_loop)

lemma as_master_prelude: "as_master en cfg body = bind (as_master en cfg (ret ())) (\<lambda>_. body)"
  by (rule ext) (auto simp: as_master_def bind_def ret_def split: prod.splits sum.splits)

lemma quiet_as_master_prelude: "emits not_yield (as_master en cfg (ret ()))"
  unfolding as_master_def
  by (auto intro!: emits_leaves quiet_boot_master_image)

lemma run_state: "snd (run en cmd resp t failok s) = extend s [Command cmd t]"
  by (auto simp: run_def emit_extend Let_def split: cmd_outcome.splits option.splits)

lemma quiet_target_extract_loop: "emits not_yield (target_extract_loop en url dest dc t r)"
proof (rule emitsI)
  fix s
  show "\<exists>new. trace (snd (target_extract_loop en url dest dc t r s)) = trace s @ new \<and>
      list_all not_yield new"
  proof (induction "nat r" arbitrary: r s)
    case 0
    then have "target_extract_loop en url dest dc t r s =
        (Inl (RuntimeError (''extracting '' @ url @ '' on target failed'')), s)"
      by (subst target_extract_loop.simps) simp
    then show ?case by simp
  next
    case (Suc k)
    then have pos: "r > 0" and k: "k = nat (r - 1)" by simp_all
    let ?c = "Command (extract_cmd url dest dc) t"
    obtain res where run: "run en (extract_cmd url dest dc) [] t False s = (res, extend s [?c])"
      using run_state[of en "extract_cmd url dest dc" "[]" t False s]
      by (cases "run en (extract_cmd url dest dc) [] t False s") auto
    show ?case
    proof (cases "res = Inl OperationFailed \<or> res = Inl TIMEOUT")
      case False
      then have "snd (target_extract_loop en url dest dc t r s) = extend s [?c]"
        using pos run by (subst target_extract_loop.simps) (cases res, auto)
      then show ?thesis by (simp add: trace_extend)
    next
      case True
      define pre where "pre =
        [?c, Log ''warning'' ''transfering %s failed. %d retry left.''] @
        (if r > 1 then
           [SendControl ''c'',
            SendLine (''echo '' @ squote @ ''retry left '' @ str_int (r - 1) @
                      '' time(s)'' @ squote),
            Log ''info'' ''Wait %d second before retry'', Sleep 60]
         else [])"
      have e: "target_extract_loop en url dest dc t r s =
          target_extract_loop en url dest dc t (r - 1) (extend s pre)"
        using pos run True unfolding pre_def
        by (subst target_extract_loop.simps) (auto simp: exec_simps)
      have p: "list_all not_yield pre" by (simp add: pre_def)
      from Suc.hyps(1)[OF k, of "extend s pre"] obtain n2 where
        "trace (snd (target_extract_loop en url dest dc t (r - 1) (extend s pre))) =
           trace (extend s pre) @ n2" "list_all not_yield n2" by blast
      with e p have "trace (snd (target_extract_loop en url dest dc t r s)) = trace s @ (pre @ n2)"
        "list_all not_yield (pre @ n2)" by (simp_all add: trace_extend)
      then show ?thesis by blast
    qed
  qed
qed

lemma quiet_target_extract: "emits not_yield (target_extract en url dest t r)"
proof (rule emitsI)
  fix s
  show "\<exists>new. trace (snd (target_extract en url dest t r s)) = trace s @ new \<and>
      list_all not_yield new"
    using emitsD[OF quiet_target_extract_loop, of en url dest "''z''" t r s]
      emitsD[OF quiet_target_extract_loop, of en url dest "''j''" t r s]
    by (auto simp: target_extract_def)
qed

lemma guarded_quiet: "emits not_yield m \<Longrightarrow> guarded m"
  unfolding guarded_def emits_def by blast

lemma guarded_bind:
  assumes "emits not_yield m" and "\<And>x. guarded (f x)"
  shows "guarded (bind m f)"
  unfolding guarded_def
proof
  fix s
  obtain r s1 where m: "m s = (r, s1)" by (cases "m s")
  from emitsD[OF assms(1), of s] m obtain n1 where
    n1: "trace s1 = trace s @ n1" "list_all not_yield n1" by auto
  show "\<exists>new. trace (snd (bind m f s)) = trace s @ new \<and>
      (list_all not_yield new \<or> ends_with_cleanup new)"
  proof (cases r)
    case (Inl e)
    with m n1 show ?thesis by (auto simp: bind_def)
  next
    case (Inr x)
    from assms(2)[of x] obtain n2 where
      n2: "trace (snd (f x s1)) = trace s1 @ n2" "list_all not_yield n2 \<or> ends_with_cleanup n2"
      unfolding guarded_def by blast
    have t: "trace (snd (bind m f s)) = trace s @ (n1 @ n2)"
      using m n1 n2 Inr by (simp add: bind_def)
    from n2(2) have "list_all not_yield (n1 @ n2) \<or> ends_with_cleanup (n1 @ n2)"
    proof
      assume "list_all not_yield n2"
      with n1 show ?thesis by simp
    next
      assume "ends_with_cleanup n2"
      then obtain mid where "n2 = mid @ [SendControl ''c'', Command ''umount /mnt'' (- 1)]"
        unfolding ends_with_cleanup_def by blast
      then have "n1 @ n2 = (n1 @ mid) @ [SendControl ''c'', Command ''umount /mnt'' (- 1)]"
        by simp
      then show ?thesis unfolding ends_with_cleanup_def by blast
    qed
    with t show ?thesis by blast
  qed
qed

lemma cleanup_state:
  "snd (bind (sendcontrol ''c'') (\<lambda>_. run_cmd en ''umount /mnt'') s) =
     extend s [SendControl ''c'', Command ''umount /mnt'' (- 1)]"
proof -
  have "snd (run_cmd en ''umount /mnt'' s1) = extend s1 [Command ''umount /mnt'' (- 1)]" for s1
    using run_state[of en "''umount /mnt''" "[]" "- 1" False s1]
    by (cases "run en ''umount /mnt'' [] (- 1) False s1")
       (auto simp: run_cmd_def discard_def bind_def ret_def split: sum.splits)
  then show ?thesis by (simp add: exec_simps)
qed

lemma guarded_try_finally_cleanup:
  assumes "emits (\<lambda>ev. True) m"
  shows "guarded (try_finally m (bind (sendcontrol ''c'') (\<lambda>_. run_cmd en ''umount /mnt'')))"
  unfolding guarded_def
proof
  fix s
  let ?fin = "bind (sendcontrol ''c'') (\<lambda>_. run_cmd en ''umount /mnt'')"
  obtain r s1 where m: "m s = (r, s1)" by (cases "m s")
  from emitsD[OF assms, of s] m obtain n1 where n1: "trace s1 = trace s @ n1" by auto
  have "snd (try_finally m ?fin s) = snd (?fin s1)"
    using m by (cases "?fin s1") (auto simp: try_finally_def split: sum.splits)
  then have "trace (snd (try_finally m ?fin s)) =
      trace s @ (n1 @ [SendControl ''c'', Command ''umount /mnt'' (- 1)])"
    by (simp add: cleanup_state trace_extend n1)
  moreover have "ends_with_cleanup (n1 @ [SendControl ''c'', Command ''umount /mnt'' (- 1)])"
    unfolding ends_with_cleanup_def by blast
  ultimately show "\<exists>new. trace (snd (try_finally m ?fin s)) = trace s @ new \<and>
      (list_all not_yield new \<or> ends_with_cleanup new)" by blast
qed


lemma guarded_raise: "guarded (raise e)"
  by (rule guarded_quiet) simp

lemma guarded_if: "(b \<Longrightarrow> guarded m) \<Longrightarrow> (\<not> b \<Longrightarrow> guarded m') \<Longrightarrow> guarded (if b then m else m')"
  by simp

lemma guarded_as_master: "guarded body \<Longrightarrow> guarded (as_master en cfg body)"
  by (subst as_master_prelude) (rule guarded_bind[OF quiet_as_master_prelude])

lemma appends_of_quiet: "emits not_yield m \<Longrightarrow> emits (\<lambda>ev. True) m"
  by (erule emits_mono) simp

lemmas appends_composites =
  quiet_run_cmd[THEN appends_of_quiet] quiet_is_file_exist[THEN appends_of_quiet]
  quiet_target_extract[THEN appends_of_quiet]

lemma guarded_file_system:
  assumes "\<And>p. emits (\<lambda>ev. True) (body p)"
  shows "guarded (file_system en cfg partno directory body)"
  unfolding file_system_def
  apply (intro guarded_bind guarded_if guarded_raise guarded_as_master
      guarded_try_finally_cleanup)
     apply (auto intro!: emits_leaves quiet_get_partition quiet_run_cmd appends_composites assms
      simp: Let_def)
  done

subsection \<open>The file exchange releases its resources\<close>

text \<open>
  C3: let the block of the caller's \<open>with\<close> statement be any code that only adds to the
  trace, whether it returns or raises.  Whenever \<open>file_system\<close> has reached its \<open>yield\<close>,
  the last two things it does before it returns to the caller are to send Ctrl-C to the
  HTTP server and to run \<open>umount /mnt\<close>, whatever happened in the block and in the
  transfer back.
\<close>

theorem file_system_always_cleans_up:
  assumes "\<forall>p s. \<exists>new. trace (snd (body p s)) = trace s @ new"
  shows "\<exists>new. trace (snd (file_system en cfg partno directory body s)) = trace s @ new \<and>
           ((\<exists>p. Yield p \<in> set new) \<longrightarrow>
            (\<exists>mid. new = mid @ [SendControl ''c'', Command ''umount /mnt'' (- 1)]))"
proof -
  have "emits (\<lambda>ev. True) (body p)" for p
  proof (rule emitsI)
    fix s
    from assms obtain new where "trace (snd (body p s)) = trace s @ new" by blast
    moreover have "list_all (\<lambda>ev. True) new" by (simp add: list_all_iff)
    ultimately show "\<exists>new. trace (snd (body p s)) = trace s @ new \<and> list_all (\<lambda>ev. True) new"
      by (intro exI conjI)
  qed
  then have g: "guarded (file_system en cfg partno directory body)"
    by (rule guarded_file_system)
  have "\<exists>new. trace (snd (file_system en cfg partno directory body s)) = trace s @ new \<and>
      (list_all not_yield new \<or> ends_with_cleanup new)"
    using g unfolding guarded_def by (rule spec)
  then obtain new where
    t: "trace (snd (file_system en cfg partno directory body s)) = trace s @ new" and
    d: "list_all not_yield new \<or> ends_with_cleanup new"
    by (elim exE conjE)
  have i: "(\<exists>p. Yield p \<in> set new) \<longrightarrow>
      (\<exists>mid. new = mid @ [SendControl ''c'', Command ''umount /mnt'' (- 1)])"
  proof
    assume "\<exists>p. Yield p \<in> set new"
    then obtain p where y: "Yield p \<in> set new" by (elim exE)
    have "\<not> not_yield (Yield p)" by simp
    with y have "\<not> list_all not_yield new"
      unfolding list_all_iff by (intro notI) (drule bspec, assumption, simp)
    with d have "ends_with_cleanup new" by simp
    then show "\<exists>mid. new = mid @ [SendControl ''c'', Command ''umount /mnt'' (- 1)]"
      unfolding ends_with_cleanup_def .
  qed
  from t i show ?thesis by (intro exI conjI)
qed


lemma target_extract_loop_first_try:
  "shell en (trace s @ [Command (extract_cmd url dest dc) t]) = ExitCode 0 \<Longrightarrow> r > 0 \<Longrightarrow>
   target_extract_loop en url dest dc t r s =
     (Inr (), extend s [Command (extract_cmd url dest dc) t])"
  by (subst target_extract_loop.simps) (simp add: run_def emit_extend trace_extend Let_def)


lemma exchange_env_answers:
  "shell exchange_env tr = ExitCode 0"
  "console exchange_env tr = Matched 0 [''8000'']"
  "host_cmd exchange_env tr = None"
  by (simp_all add: exchange_env_def)

lemma path_split_results: "path_split ''/mnt/lava/results'' = (''/mnt/lava'', ''results'')"
    by (simp add: path_split_def basename_def rstrip_def Let_def)

lemma target_extract_exchange: "target_extract exchange_env ''http://host/images/tmp/fs.tgz'' ''/mnt/lava'' (- 1) 5 s =
      (Inr (), extend s [Command (extract_cmd ''http://host/images/tmp/fs.tgz'' ''/mnt/lava'' ''z'') (- 1)])"
    by (simp add: target_extract_def endswith_def target_extract_loop_first_try exchange_env_answers)


lemma run_exchange:
  "run exchange_env cmd resp t failok s = (Inr (Rc 0), extend s [Command cmd t])"
  by (simp add: run_def exchange_env_answers emit_extend Let_def)

lemma expect_exchange:
  "expect exchange_env pats t s = (Inr (0, [''8000'']), extend s [Expect pats t])"
  by (simp add: expect_def exchange_env_answers emit_extend Let_def)

lemma host_exchange:
  "host_unit exchange_env name args s = (Inr (), extend s [Host name args])"
  "host_str exchange_env ''time.time'' [] s = (Inr ''1389.5'', extend s [Host ''time.time'' []])"
  "host_str exchange_env ''download_with_retry'' args s =
     (Inr ''/srv/images/tmp/fs.tgz'', extend s [Host ''download_with_retry'' args])"
  by (simp_all add: host_unit_def host_str_def exchange_env_answers exchange_env_def emit_extend trace_extend Let_def)

lemma exchange_fields:
  "master_ip (extend s evs) = master_ip s"
  "master_ip deployed_target = Some ''10.0.0.7''"
  "scratch_dir panda_config = ''/srv/images/tmp''"
  "lava_image_url panda_config = ''http://host/images''"
  "boot_part panda_config = 1" "root_part panda_config = 2"
  by (simp_all add: extend_def deployed_target_def panda_config_def)

lemma exchange_run:
  "file_system exchange_env panda_config 2 ''lava/results''
       (\<lambda>p. raise (OtherError ''boom'')) deployed_target =
     (Inl (OtherError ''boom''), extend deployed_target exchange_events)"
  by (simp add: file_system_def as_master_def get_partition_def run_cmd_def discard_def
      is_file_exist_def run_exchange expect_exchange host_exchange exchange_fields path_split_results target_extract_exchange
      get_master_ip_def str_opt_def try_finally_def last_two_def
      path_join_def startswith_def endswith_def exchange_events_def
      exec_simps bind_def Let_def)


theorem file_system_always_cleans_up_witness:
  "(\<forall>p s. \<exists>new. trace (snd ((\<lambda>p. raise (OtherError ''boom'')) p s)) = trace s @ new) \<and>
   file_system exchange_env panda_config 2 ''lava/results''
       (\<lambda>p. raise (OtherError ''boom'')) deployed_target =
     (Inl (OtherError ''boom''), extend deployed_target exchange_events) \<and>
   Yield ''/srv/images/tmp/1389.5/results'' \<in> set exchange_events \<and>
   (\<exists>mid. exchange_events = mid @ [SendControl ''c'', Command ''umount /mnt'' (- 1)])"
proof -
  have b: "\<forall>p s. \<exists>new. trace (snd ((\<lambda>p. raise (OtherError ''boom'')) p s)) = trace s @ new"
    by (simp add: raise_def)
  have y: "Yield ''/srv/images/tmp/1389.5/results'' \<in> set exchange_events"
    by (simp add: exchange_events_def)
  from file_system_always_cleans_up [OF b, of exchange_env panda_config 2 "''lava/results''"
      deployed_target]
  obtain new where
    t: "trace (snd (file_system exchange_env panda_config 2 ''lava/results''
          (\<lambda>p. raise (OtherError ''boom'')) deployed_target)) = trace deployed_target @ new"
    and c: "(\<exists>p. Yield p \<in> set new) \<longrightarrow>
          (\<exists>mid. new = mid @ [SendControl ''c'', Command ''umount /mnt'' (- 1)])"
    by blast
  from t have n: "new = exchange_events"
    by (simp add: exchange_run trace_extend)
  have e: "\<exists>mid. exchange_events = mid @ [SendControl ''c'', Command ''umount /mnt'' (- 1)]"
    using c y unfolding n by blast
  from b exchange_run y e show ?thesis by (intro conjI)
qed

end
